theory Spec2Isabelle
  imports Main "HOL-Library.Word" "HOL-Library.Signed_Division"
begin

unbundle bit_operations_syntax

section \<open>Go run-time conventions\<close>

text \<open>
  A run-time panic of the Go program is a value of type \<open>panic\<close>.  A function that can
  panic returns \<open>panic + 'a\<close> with \<open>Inl\<close> for the panic.  Go's \<open>int\<close> is modelled by
  \<open>int\<close>: the cursors of the ring buffer stay far below \<open>2 ^ 63\<close>.
\<close>

datatype panic = IndexOutOfRange | SliceBoundsOutOfRange | MakeSliceLenOutOfRange

type_synonym byte = "8 word"

text \<open>The builtin \<open>copy(dst, src)\<close>: the updated destination and the number copied.\<close>

definition go_copy :: "'a list \<Rightarrow> 'a list \<Rightarrow> 'a list \<times> int" where
  "go_copy dst src =
     (let n = min (length dst) (length src) in (take n src @ drop n dst, int n))"

text \<open>The slice expressions \<open>s[lo:]\<close>, \<open>s[:hi]\<close> and \<open>s[lo:hi]\<close> with their bounds checks.\<close>

definition slice_from :: "'a list \<Rightarrow> int \<Rightarrow> panic + 'a list" where
  "slice_from s lo =
     (if 0 \<le> lo \<and> lo \<le> int (length s) then Inr (drop (nat lo) s)
      else Inl SliceBoundsOutOfRange)"

definition slice_to :: "'a list \<Rightarrow> int \<Rightarrow> panic + 'a list" where
  "slice_to s hi =
     (if 0 \<le> hi \<and> hi \<le> int (length s) then Inr (take (nat hi) s)
      else Inl SliceBoundsOutOfRange)"

definition slice_range :: "'a list \<Rightarrow> int \<Rightarrow> int \<Rightarrow> panic + 'a list" where
  "slice_range s lo hi =
     (if 0 \<le> lo \<and> lo \<le> hi \<and> hi \<le> int (length s)
      then Inr (take (nat hi - nat lo) (drop (nat lo) s))
      else Inl SliceBoundsOutOfRange)"

section \<open>Package ring: the ring buffer\<close>

record 'a Buffer =
  data :: "'a list"
  head :: int
  tail :: int

definition NewBuffer :: "int \<Rightarrow> panic + ('a::zero) Buffer" where
  "NewBuffer n =
     (if n < 0 then Inl MakeSliceLenOutOfRange
      else Inr \<lparr>data = replicate (nat n) 0, head = 0, tail = 0\<rparr>)"

definition Len :: "'a Buffer \<Rightarrow> int" where
  "Len r =
     (if head r \<le> tail r then tail r - head r
      else int (length (data r)) - head r + tail r)"

definition Size :: "'a Buffer \<Rightarrow> int" where
  "Size r = int (length (data r))"

definition Write :: "'a Buffer \<Rightarrow> 'a list \<Rightarrow> panic + 'a Buffer" where
  "Write r src =
     (if length src \<ge> length (data r) then
        Inr (r\<lparr>head := 0, tail := int (length (data r)),
               data := fst (go_copy (data r) (drop (length src - length (data r)) src))\<rparr>)
      else
        case slice_from (data r) (tail r) of
          Inl p \<Rightarrow> Inl p
        | Inr window \<Rightarrow>
            let (window', n) = go_copy window src;
                data1 = take (nat (tail r)) (data r) @ window'
            in if int (length src) \<le> n then Inr (r\<lparr>data := data1, tail := tail r + n\<rparr>)
               else
                 let (data2, m) = go_copy data1 (drop (nat n) src);
                     r2 = r\<lparr>data := data2, tail := m\<rparr>
                 in Inr (if tail r2 > head r2 then r2\<lparr>head := tail r2\<rparr> else r2))"

text \<open>
  \<open>CopyTo\<close> has a value receiver's effect on the buffer: it only reads \<open>r\<close>.  The model
  returns the buffer as \<open>CopyTo\<close> leaves it, the destination and the count.
\<close>

definition CopyTo :: "'a Buffer \<Rightarrow> 'a list \<Rightarrow> panic + ('a Buffer \<times> 'a list \<times> int)" where
  "CopyTo r dst =
     (if head r < tail r then
        case slice_range (data r) (head r) (tail r) of
          Inl p \<Rightarrow> Inl p
        | Inr s \<Rightarrow> let (dst', n) = go_copy dst s in Inr (r, dst', n)
      else
        case slice_from (data r) (head r) of
          Inl p \<Rightarrow> Inl p
        | Inr s1 \<Rightarrow>
            let (dst1, n) = go_copy dst s1 in
            case slice_to (data r) (tail r) of
              Inl p \<Rightarrow> Inl p
            | Inr s2 \<Rightarrow>
                let (rest, m) = go_copy (drop (nat n) dst1) s2
                in Inr (r, take (nat n) dst1 @ rest, n + m))"

definition Advance :: "'a Buffer \<Rightarrow> int \<Rightarrow> 'a Buffer" where
  "Advance r n =
     (if head r < tail r then r\<lparr>head := head r + min n (tail r - head r)\<rparr>
      else
        let front = int (length (data r)) - head r
        in if n \<le> front then r\<lparr>head := head r + n\<rparr>
           else r\<lparr>head := n - front\<rparr>)"

definition Read :: "'a Buffer \<Rightarrow> 'a list \<Rightarrow> panic + ('a Buffer \<times> 'a list \<times> int)" where
  "Read r dst =
     (case CopyTo r dst of
        Inl p \<Rightarrow> Inl p
      | Inr (r', dst', n) \<Rightarrow> Inr (Advance r' n, dst', n))"

text \<open>
  A buffer is well formed when both cursors index the backing array or stand at its end.
\<close>

definition wf_Buffer :: "'a Buffer \<Rightarrow> bool" where
  "wf_Buffer r \<longleftrightarrow>
     0 \<le> head r \<and> head r \<le> int (length (data r)) \<and>
     0 \<le> tail r \<and> tail r \<le> int (length (data r))"

section \<open>Package pmd: constants and errors\<close>

text \<open>
  \<open>Command\<close>, \<open>RecordingType\<close>, \<open>MeasureType\<close>, \<open>FrameType\<close> and \<open>SettingType\<close> are all
  \<open>uint8\<close> in the source; they are bytes here, with the source's named constants.
\<close>

definition MeasureSettings :: byte where "MeasureSettings = 1"
definition MeasureStart :: byte where "MeasureStart = 2"
definition MeasureStop :: byte where "MeasureStop = 3"

definition Online :: byte where "Online = 0"
definition Offline :: byte where "Offline = 1"

definition ECGType :: byte where "ECGType = 0"
definition ECGFrameType0 :: byte where "ECGFrameType0 = 0"
definition ECGSamplingStride :: nat where "ECGSamplingStride = 3"
definition AccType :: byte where "AccType = 2"
definition measurementTypes :: nat where "measurementTypes = 13"

definition sampleTypeOffset :: nat where "sampleTypeOffset = 0"
definition timeStampOffset :: nat where "timeStampOffset = 1"
definition frameTypeOffset :: nat where "frameTypeOffset = 9"
definition dataOffset :: nat where "dataOffset = 10"

definition epoch :: int where "epoch = 946684800"

definition SampleRateSetting :: byte where "SampleRateSetting = 0"
definition ResolutionSetting :: byte where "ResolutionSetting = 1"
definition RangeUnitSetting :: byte where "RangeUnitSetting = 2"
definition ChannelsSetting :: byte where "ChannelsSetting = 4"
definition ConversionFactorSetting :: byte where "ConversionFactorSetting = 5"

definition headerSize :: nat where "headerSize = 2"

definition uint8Kind :: byte where "uint8Kind = 1"
definition uint16Kind :: byte where "uint16Kind = 2"
definition float32Kind :: byte where "float32Kind = 3"

definition uint8Size :: nat where "uint8Size = 1"
definition uint16Size :: nat where "uint16Size = 2"
definition int24Size :: nat where "int24Size = 3"
definition float32Size :: nat where "float32Size = 4"

text \<open>The error of a context that is done: \<open>ctx.Err()\<close>.\<close>

datatype ctx_error = DeadlineExceeded | Canceled

text \<open>
  The error values of the package, one constructor for each \<open>fmt.Errorf\<close> format and for
  \<open>io.ErrUnexpectedEOF\<close>, carrying what the message prints.
\<close>

datatype error =
    DstTooShort
  | InvalidSettingType byte
  | UnexpectedEOF
  | UnknownSettingType byte
  | ShortResponse "byte list"
  | InvalidResponse "byte list"
  | ExpectedSampleTypeECG byte
  | ExpectedFrameTypeECG byte
  | SamplesNotFactorOf3 nat
  | InvalidMeasurementType byte
  | ContextError ctx_error

section \<open>Package pmd: the static table of setting types\<close>

text \<open>
  One entry of \<open>settingTypes\<close>: the kind of the values, the required element count and the
  element width.  Index 3 is not named in the array literal and holds the zero entry.
\<close>

record settingEntry =
  st_typ :: byte
  st_n :: byte
  st_size :: byte

definition settingTypes :: "settingEntry list" where
  "settingTypes =
     [\<lparr>st_typ = uint16Kind, st_n = 1, st_size = of_nat uint16Size\<rparr>,
      \<lparr>st_typ = uint16Kind, st_n = 1, st_size = of_nat uint16Size\<rparr>,
      \<lparr>st_typ = uint16Kind, st_n = 1, st_size = of_nat uint16Size\<rparr>,
      \<lparr>st_typ = 0, st_n = 0, st_size = 0\<rparr>,
      \<lparr>st_typ = uint8Kind, st_n = 1, st_size = of_nat uint8Size\<rparr>,
      \<lparr>st_typ = float32Kind, st_n = 1, st_size = of_nat float32Size\<rparr>]"

section \<open>Package pmd: little-endian byte order\<close>

text \<open>
  \<open>binary.LittleEndian\<close>.  The writers take the destination and the offset of the
  sub-slice they are called on.  Every call in the package follows a length check that
  keeps the accessed indices in range, so the run-time bounds checks of these helpers
  never fire there.
\<close>

definition LE_Uint16 :: "byte list \<Rightarrow> 16 word" where
  "LE_Uint16 b = ucast (b ! 0) OR push_bit 8 (ucast (b ! 1))"

definition LE_Uint32 :: "byte list \<Rightarrow> 32 word" where
  "LE_Uint32 b =
     ucast (b ! 0) OR push_bit 8 (ucast (b ! 1)) OR push_bit 16 (ucast (b ! 2))
       OR push_bit 24 (ucast (b ! 3))"

definition LE_Uint64 :: "byte list \<Rightarrow> 64 word" where
  "LE_Uint64 b =
     ucast (b ! 0) OR push_bit 8 (ucast (b ! 1)) OR push_bit 16 (ucast (b ! 2))
       OR push_bit 24 (ucast (b ! 3)) OR push_bit 32 (ucast (b ! 4))
       OR push_bit 40 (ucast (b ! 5)) OR push_bit 48 (ucast (b ! 6))
       OR push_bit 56 (ucast (b ! 7))"

definition LE_PutUint16 :: "byte list \<Rightarrow> nat \<Rightarrow> 16 word \<Rightarrow> byte list" where
  "LE_PutUint16 dst off v = dst[off := ucast v, off + 1 := ucast (drop_bit 8 v)]"

definition LE_PutUint32 :: "byte list \<Rightarrow> nat \<Rightarrow> 32 word \<Rightarrow> byte list" where
  "LE_PutUint32 dst off v =
     dst[off := ucast v, off + 1 := ucast (drop_bit 8 v),
         off + 2 := ucast (drop_bit 16 v), off + 3 := ucast (drop_bit 24 v)]"

section \<open>Package pmd: settings\<close>

text \<open>
  The three setting structs have the same two fields, \<open>Type\<close> and \<open>Val\<close>, and differ in
  the element type.  A \<open>float32\<close> is represented by its IEEE 754 bit pattern, so that
  \<open>math.Float32bits\<close> and \<open>math.Float32frombits\<close> are the identity.
\<close>

record 'v SettingRec =
  Type :: byte
  Val :: "'v list"

type_synonym Uint8 = "8 word SettingRec"
type_synonym Uint16 = "16 word SettingRec"
type_synonym Float32 = "32 word SettingRec"

definition Uint8_size :: "nat \<Rightarrow> nat" where
  "Uint8_size k = headerSize + k * uint8Size"

definition Uint8_Size :: "Uint8 \<Rightarrow> nat" where
  "Uint8_Size w = Uint8_size (length (Val w))"

definition Uint16_size :: "nat \<Rightarrow> nat" where
  "Uint16_size k = headerSize + k * uint16Size"

definition Uint16_Size :: "Uint16 \<Rightarrow> nat" where
  "Uint16_Size w = Uint16_size (length (Val w))"

definition Float32_size :: "nat \<Rightarrow> nat" where
  "Float32_size k = headerSize + k * float32Size"

definition Float32_Size :: "Float32 \<Rightarrow> nat" where
  "Float32_Size w = Float32_size (length (Val w))"

text \<open>
  The check that opens each \<open>write\<close>: the type indexes the table, the table's count is
  the number of values, and the table's width is the width of the struct's elements.
\<close>

definition table_mismatch :: "byte \<Rightarrow> nat \<Rightarrow> nat \<Rightarrow> bool" where
  "table_mismatch t k width \<longleftrightarrow>
     unat t \<ge> length settingTypes
     \<or> unat (st_n (settingTypes ! unat t)) \<noteq> k
     \<or> unat (st_size (settingTypes ! unat t)) \<noteq> width"

definition Uint8_write :: "Uint8 \<Rightarrow> byte list \<Rightarrow> error + (nat \<times> byte list)" where
  "Uint8_write w dst =
     (let k = length (Val w) in
      if table_mismatch (Type w) k uint8Size then Inl (InvalidSettingType (Type w))
      else if length dst < Uint8_Size w then Inl DstTooShort
      else
        let dst1 = dst[0 := Type w, 1 := of_nat k];
            dst2 = take headerSize dst1 @ fst (go_copy (drop headerSize dst1) (Val w))
        in Inr (Uint8_Size w, dst2))"

definition Uint8_UnmarshalBinary :: "byte list \<Rightarrow> error + Uint8" where
  "Uint8_UnmarshalBinary dat =
     (if length dat < headerSize then Inl UnexpectedEOF
      else
        let k = unat (dat ! 1) in
        if length dat < Uint8_size k then Inl UnexpectedEOF
        else Inr \<lparr>Type = dat ! 0,
                  Val = fst (go_copy (replicate k 0) (drop headerSize dat))\<rparr>)"

fun Uint16_write_loop :: "nat \<Rightarrow> nat \<Rightarrow> 16 word list \<Rightarrow> byte list \<Rightarrow> byte list" where
  "Uint16_write_loop width i [] dst = dst"
| "Uint16_write_loop width i (e # es) dst =
     Uint16_write_loop width (Suc i) es (LE_PutUint16 dst (headerSize + i * width) e)"

definition Uint16_write :: "Uint16 \<Rightarrow> byte list \<Rightarrow> error + (nat \<times> byte list)" where
  "Uint16_write w dst =
     (let k = length (Val w) in
      if table_mismatch (Type w) k uint16Size then Inl (InvalidSettingType (Type w))
      else if length dst < Uint16_Size w then Inl DstTooShort
      else
        let l = settingTypes ! unat (Type w) in
        if unat (st_size l) \<noteq> uint16Size then Inl (InvalidSettingType (Type w))
        else
          let dst1 = dst[0 := Type w, 1 := of_nat (length (Val w))]
          in Inr (Uint16_Size w, Uint16_write_loop (unat (st_size l)) 0 (Val w) dst1))"

fun Uint16_read_loop :: "nat \<Rightarrow> byte list \<Rightarrow> 16 word list" where
  "Uint16_read_loop 0 dat = []"
| "Uint16_read_loop (Suc k) dat = LE_Uint16 dat # Uint16_read_loop k (drop uint16Size dat)"

definition Uint16_UnmarshalBinary :: "byte list \<Rightarrow> error + Uint16" where
  "Uint16_UnmarshalBinary dat =
     (if length dat < headerSize then Inl UnexpectedEOF
      else
        let k = unat (dat ! 1) in
        if length dat < Uint16_size k then Inl UnexpectedEOF
        else Inr \<lparr>Type = dat ! 0, Val = Uint16_read_loop k (drop headerSize dat)\<rparr>)"

fun Float32_write_loop :: "nat \<Rightarrow> nat \<Rightarrow> 32 word list \<Rightarrow> byte list \<Rightarrow> byte list" where
  "Float32_write_loop width i [] dst = dst"
| "Float32_write_loop width i (e # es) dst =
     Float32_write_loop width (Suc i) es (LE_PutUint32 dst (headerSize + i * width) e)"

definition Float32_write :: "Float32 \<Rightarrow> byte list \<Rightarrow> error + (nat \<times> byte list)" where
  "Float32_write w dst =
     (let k = length (Val w) in
      if table_mismatch (Type w) k float32Size then Inl (InvalidSettingType (Type w))
      else if length dst < Float32_Size w then Inl DstTooShort
      else
        let l = settingTypes ! unat (Type w) in
        if unat (st_size l) \<noteq> float32Size then Inl (InvalidSettingType (Type w))
        else
          let dst1 = dst[0 := Type w, 1 := of_nat (length (Val w))]
          in Inr (Float32_Size w, Float32_write_loop (unat (st_size l)) 0 (Val w) dst1))"

fun Float32_read_loop :: "nat \<Rightarrow> byte list \<Rightarrow> 32 word list" where
  "Float32_read_loop 0 dat = []"
| "Float32_read_loop (Suc k) dat = LE_Uint32 dat # Float32_read_loop k (drop float32Size dat)"

definition Float32_UnmarshalBinary :: "byte list \<Rightarrow> error + Float32" where
  "Float32_UnmarshalBinary dat =
     (if length dat < headerSize then Inl UnexpectedEOF
      else
        let k = unat (dat ! 1) in
        if length dat < Float32_size k then Inl UnexpectedEOF
        else Inr \<lparr>Type = dat ! 0, Val = Float32_read_loop k (drop headerSize dat)\<rparr>)"

text \<open>The interface \<open>Setting\<close> with the three structs that \<open>parseSetting\<close> produces.\<close>

datatype Setting = SetUint8 Uint8 | SetUint16 Uint16 | SetFloat32 Float32

fun Setting_Size :: "Setting \<Rightarrow> nat" where
  "Setting_Size (SetUint8 w) = Uint8_Size w"
| "Setting_Size (SetUint16 w) = Uint16_Size w"
| "Setting_Size (SetFloat32 w) = Float32_Size w"

fun Setting_write :: "Setting \<Rightarrow> byte list \<Rightarrow> error + (nat \<times> byte list)" where
  "Setting_write (SetUint8 w) dst = Uint8_write w dst"
| "Setting_write (SetUint16 w) dst = Uint16_write w dst"
| "Setting_write (SetFloat32 w) dst = Float32_write w dst"

definition settingSize :: "Setting list \<Rightarrow> nat" where
  "settingSize s = sum_list (map Setting_Size s)"

text \<open>
  \<open>parseSetting\<close>: the loop runs while bytes are left and consumes \<open>Size\<close> of each
  decoded setting.  It returns the settings decoded so far together with the error, if any.
\<close>

function parseSetting_loop :: "byte list \<Rightarrow> Setting list \<Rightarrow> Setting list \<times> error option" where
  "parseSetting_loop dat settings =
     (if length dat = 0 then (settings, None)
      else if unat (dat ! 0) \<ge> length settingTypes
              \<or> st_typ (settingTypes ! unat (dat ! 0)) = 0
      then (settings, Some (UnknownSettingType (dat ! 0)))
      else
        let typ = st_typ (settingTypes ! unat (dat ! 0)) in
        if typ = uint8Kind then
          (case Uint8_UnmarshalBinary dat of
             Inl err \<Rightarrow> (settings, Some err)
           | Inr s \<Rightarrow> parseSetting_loop (drop (Uint8_Size s) dat) (settings @ [SetUint8 s]))
        else if typ = uint16Kind then
          (case Uint16_UnmarshalBinary dat of
             Inl err \<Rightarrow> (settings, Some err)
           | Inr s \<Rightarrow> parseSetting_loop (drop (Uint16_Size s) dat) (settings @ [SetUint16 s]))
        else if typ = float32Kind then
          (case Float32_UnmarshalBinary dat of
             Inl err \<Rightarrow> (settings, Some err)
           | Inr s \<Rightarrow> parseSetting_loop (drop (Float32_Size s) dat) (settings @ [SetFloat32 s]))
        else (settings, Some (UnknownSettingType (dat ! 0))))"
  by pat_completeness auto
termination
  by (relation "measure (\<lambda>(dat, settings). length dat)")
    (auto simp add: Uint8_Size_def Uint8_size_def Uint16_Size_def Uint16_size_def
      Float32_Size_def Float32_size_def headerSize_def)

declare parseSetting_loop.simps [simp del]

definition parseSetting :: "byte list \<Rightarrow> Setting list \<times> error option" where
  "parseSetting dat = parseSetting_loop dat []"

section \<open>Package pmd: control point commands\<close>

record setCommand =
  Command :: byte
  Record :: byte
  Measure :: byte

definition setCommand_Size :: nat where
  "setCommand_Size = 2"

definition setCommand_write :: "setCommand \<Rightarrow> byte list \<Rightarrow> error + (nat \<times> byte list)" where
  "setCommand_write w dst =
     (if length dst < 2 then Inl DstTooShort
      else Inr (2, dst[0 := Command w, 1 := push_bit 7 (Record w) OR Measure w]))"

text \<open>
  What the control point characteristic and the caller's context do during one exchange
  is an input of the model.  After \<open>WriteWithoutResponse\<close> the \<open>select\<close> statement either
  takes \<open>done\<close>, closed by the notification callback after it stored a copy of the
  notification (\<open>Notified\<close>), or takes \<open>ctx.Done()\<close> (\<open>Expired\<close>); in the second case the
  variable written by the callback holds whatever the callback stored so far: nothing (the
  nil slice, of length 0) when the device never answered.
\<close>

datatype exchange = Notified "byte list" | Expired ctx_error "byte list"

text \<open>The calls made on the characteristic, in order.\<close>

datatype dev_call = EnableNotifications_callback | WriteWithoutResponse "byte list"
  | EnableNotifications_nil

definition querySettings ::
    "byte \<Rightarrow> byte \<Rightarrow> byte \<Rightarrow> exchange \<Rightarrow> dev_call list \<times> Setting list \<times> error option" where
  "querySettings com rec meas x =
     (case setCommand_write \<lparr>Command = com, Record = rec, Measure = meas\<rparr>
             (replicate setCommand_Size 0) of
        Inl err \<Rightarrow> ([], [], Some err)
      | Inr (k, msg) \<Rightarrow>
          let (err, settings) =
                (case x of
                   Notified buf \<Rightarrow> (None, buf)
                 | Expired e buf \<Rightarrow> (Some (ContextError e), buf));
              calls = [EnableNotifications_callback, WriteWithoutResponse msg,
                       EnableNotifications_nil]
          in if length settings < 5 then (calls, [], Some (ShortResponse settings))
             else if settings ! 0 \<noteq> 0xf0 \<or> settings ! 1 \<noteq> com
             then (calls, [], Some (InvalidResponse settings))
             else if settings ! 3 \<noteq> 0
             then (calls, [], Some (InvalidResponse (take 5 settings)))
             else (case parseSetting (drop 5 settings) of
                     (parsed, perr) \<Rightarrow> (calls, parsed, perr)))"

text \<open>
  \<open>sendCommand\<close>: the loop over the settings writes each at the running offset and stops
  at the first error.
\<close>

fun sendCommand_loop :: "Setting list \<Rightarrow> nat \<Rightarrow> byte list \<Rightarrow> error + byte list" where
  "sendCommand_loop [] off msg = Inr msg"
| "sendCommand_loop (w # ws) off msg =
     (case Setting_write w (drop off msg) of
        Inl err \<Rightarrow> Inl err
      | Inr (k, written) \<Rightarrow> sendCommand_loop ws (off + k) (take off msg @ written))"

definition sendCommand ::
    "byte \<Rightarrow> byte \<Rightarrow> byte \<Rightarrow> Setting list \<Rightarrow> exchange
       \<Rightarrow> dev_call list \<times> byte list \<times> error option" where
  "sendCommand com rec meas settings x =
     (case setCommand_write \<lparr>Command = com, Record = rec, Measure = meas\<rparr>
             (replicate (setCommand_Size + settingSize settings) 0) of
        Inl err \<Rightarrow> ([], [], Some err)
      | Inr (k, msg0) \<Rightarrow>
          (case sendCommand_loop settings k msg0 of
             Inl err \<Rightarrow> ([], [], Some err)
           | Inr msg \<Rightarrow>
               let (err, resp) =
                     (case x of
                        Notified buf \<Rightarrow> (None, buf)
                      | Expired e buf \<Rightarrow> (Some (ContextError e), buf))
               in ([EnableNotifications_callback, WriteWithoutResponse msg,
                    EnableNotifications_nil], resp, err)))"

section \<open>Package pmd: ECG frames\<close>

text \<open>
  \<open>time.Time\<close> as the pair that \<open>time.Unix\<close> is given, normalised as the standard
  library does it: seconds since the Unix epoch and nanoseconds within the second.  Go's
  \<open>int64\<close> is \<open>int\<close> here; the division of a 64-bit value by \<open>1e9\<close> plus \<open>epoch\<close> cannot
  overflow.  Go's \<open>/\<close> and \<open>%\<close> truncate towards zero: \<open>sdiv\<close> and \<open>smod\<close>.
\<close>

record Time =
  unix_sec :: int
  unix_nsec :: int

definition time_Unix :: "int \<Rightarrow> int \<Rightarrow> Time" where
  "time_Unix sec nsec =
     (if nsec < 0 \<or> nsec \<ge> 1000000000 then
        let k = nsec sdiv 1000000000;
            sec1 = sec + k;
            nsec1 = nsec - k * 1000000000
        in if nsec1 < 0 then \<lparr>unix_sec = sec1 - 1, unix_nsec = nsec1 + 1000000000\<rparr>
           else \<lparr>unix_sec = sec1, unix_nsec = nsec1\<rparr>
      else \<lparr>unix_sec = sec, unix_nsec = nsec\<rparr>)"

text \<open>The instant of a \<open>Time\<close>, in nanoseconds since the Unix epoch.\<close>

definition unix_nanos :: "Time \<Rightarrow> int" where
  "unix_nanos t = unix_sec t * 1000000000 + unix_nsec t"

record ECG =
  Timestamp :: Time
  Trace :: "32 word list"

text \<open>
  \<open>leInt24\<close>: \<open>int32(int8(b[2]))\<close> sign-extends the top byte (\<open>scast\<close>); the first line of
  the function indexes \<open>b[2]\<close>.
\<close>

definition leInt24 :: "byte list \<Rightarrow> panic + 32 word" where
  "leInt24 b =
     (if length b \<le> 2 then Inl IndexOutOfRange
      else Inr (ucast (b ! 0) OR push_bit 8 (ucast (b ! 1)) OR push_bit 16 (scast (b ! 2))))"

function ECG_trace_loop :: "byte list \<Rightarrow> nat \<Rightarrow> 32 word list \<Rightarrow> panic + 32 word list" where
  "ECG_trace_loop trace i ecgTrace =
     (if i < length trace then
        (case slice_range trace (int i) (int (i + ECGSamplingStride)) of
           Inl p \<Rightarrow> Inl p
         | Inr b \<Rightarrow>
             (case leInt24 b of
                Inl p \<Rightarrow> Inl p
              | Inr v \<Rightarrow> ECG_trace_loop trace (i + ECGSamplingStride) (ecgTrace @ [v])))
      else Inr ecgTrace)"
  by pat_completeness auto
termination
  by (relation "measure (\<lambda>(trace, i, ecgTrace). length trace - i)")
    (auto simp add: ECGSamplingStride_def)

declare ECG_trace_loop.simps [simp del]

text \<open>
  \<open>ECG.UnmarshalBinary\<close> returns a panic, an error, or the decoded frame.  The index
  expressions \<open>data[sampleTypeOffset]\<close> and \<open>data[frameTypeOffset]\<close> are not preceded by a
  length check in the source, so each is a branch here.
\<close>

definition ECG_UnmarshalBinary :: "byte list \<Rightarrow> panic + (error + ECG)" where
  "ECG_UnmarshalBinary dat =
     (if length dat \<le> sampleTypeOffset then Inl IndexOutOfRange
      else if dat ! sampleTypeOffset \<noteq> ECGType
      then Inr (Inl (ExpectedSampleTypeECG (dat ! sampleTypeOffset)))
      else if length dat \<le> frameTypeOffset then Inl IndexOutOfRange
      else if dat ! frameTypeOffset \<noteq> ECGFrameType0
      then Inr (Inl (ExpectedFrameTypeECG (dat ! frameTypeOffset)))
      else
        let timestamp = LE_Uint64 (drop timeStampOffset dat);
            trace = drop dataOffset dat
        in if length trace mod ECGSamplingStride \<noteq> 0
           then Inr (Inl (SamplesNotFactorOf3 (length trace mod 3)))
           else
             (case ECG_trace_loop trace 0 [] of
                Inl p \<Rightarrow> Inl p
              | Inr ecgTrace \<Rightarrow>
                  Inr (Inr \<lparr>Timestamp =
                              time_Unix (sint timestamp sdiv 1000000000 + epoch)
                                (sint timestamp smod 1000000000),
                            Trace = ecgTrace\<rparr>)))"

section \<open>Package pmd: the listener\<close>

text \<open>
  A notification handler \<open>func([]byte)\<close> is a function from the payload to what the call
  does: a panic or an effect of type \<open>'w\<close>.  The \<open>nil\<close> function is \<open>None\<close>.  Of the
  \<open>Listener\<close> struct the model keeps the features and the array of handlers, a list of
  \<open>measurementTypes\<close> entries.
\<close>

type_synonym 'w handler = "byte list \<Rightarrow> panic + 'w"

record 'w Listener =
  features :: "byte list"
  handlers :: "'w handler option list"

text \<open>The struct that \<open>NewListener\<close> builds: no handler is installed.\<close>

definition Listener_init :: "byte list \<Rightarrow> 'w Listener" where
  "Listener_init feats = \<lparr>features = feats, handlers = replicate measurementTypes None\<rparr>"

text \<open>
  \<open>dispatch\<close> indexes the array of \<open>measurementTypes\<close> handlers with the first byte of
  the payload.
\<close>

definition dispatch :: "'w Listener \<Rightarrow> byte list \<Rightarrow> panic + 'w option" where
  "dispatch l buf =
     (if length buf = 0 then Inr None
      else if unat (buf ! sampleTypeOffset) \<ge> measurementTypes then Inl IndexOutOfRange
      else
        (case handlers l ! unat (buf ! sampleTypeOffset) of
           None \<Rightarrow> Inr None
         | Some handle \<Rightarrow>
             (case handle buf of Inl p \<Rightarrow> Inl p | Inr w \<Rightarrow> Inr (Some w))))"

text \<open>The result of \<open>Handler.Handle()\<close>.\<close>

record 'w Handle =
  h_com :: byte
  h_measureTyp :: byte
  h_settings :: "Setting list"
  h_handle :: "'w handler option"

definition ECGSampleFreq :: "16 word" where "ECGSampleFreq = 130"
definition ECGResolution :: "16 word" where "ECGResolution = 14"

definition ECGHandler_Handle :: "'w handler option \<Rightarrow> 'w Handle" where
  "ECGHandler_Handle h =
     (case h of
        None \<Rightarrow> \<lparr>h_com = MeasureStop, h_measureTyp = ECGType, h_settings = [],
                  h_handle = None\<rparr>
      | Some f \<Rightarrow>
          \<lparr>h_com = MeasureStart, h_measureTyp = ECGType,
           h_settings = [SetUint16 \<lparr>Type = SampleRateSetting, Val = [ECGSampleFreq]\<rparr>,
                         SetUint16 \<lparr>Type = ResolutionSetting, Val = [ECGResolution]\<rparr>],
           h_handle = Some f\<rparr>)"

text \<open>
  \<open>SetHandler\<close> returns the listener as it leaves it, the calls made on the control
  point, the response and the error.
\<close>

definition SetHandler ::
    "'w Listener \<Rightarrow> 'w Handle \<Rightarrow> exchange
       \<Rightarrow> 'w Listener \<times> dev_call list \<times> byte list \<times> error option" where
  "SetHandler l h x =
     (if unat (h_measureTyp h) \<ge> measurementTypes
      then (l, [], [], Some (InvalidMeasurementType (h_measureTyp h)))
      else
        let l1 = l\<lparr>handlers := (handlers l)[unat (h_measureTyp h) := h_handle h]\<rparr>
        in (l1, sendCommand (h_com h) Online (h_measureTyp h) (h_settings h) x))"

definition Listener_Settings ::
    "'w Listener \<Rightarrow> byte \<Rightarrow> exchange \<Rightarrow> dev_call list \<times> Setting list \<times> error option" where
  "Listener_Settings l m x = querySettings MeasureSettings Online m x"

section \<open>The specification's reading of an ECG payload\<close>

text \<open>
  The specification's words for the samples of an ECG frame, against which the decoder is
  compared: the payload after the header is cut into consecutive groups of three bytes,
  and a group is a little-endian 24-bit number read as two's complement, the sign bit
  being the top bit of the third byte.
\<close>

fun spec_groups3 :: "byte list \<Rightarrow> (byte \<times> byte \<times> byte) list" where
  "spec_groups3 (a # b # c # rest) = (a, b, c) # spec_groups3 rest"
| "spec_groups3 _ = []"

definition spec_int24 :: "byte \<times> byte \<times> byte \<Rightarrow> int" where
  "spec_int24 g =
     (case g of (a, b, c) \<Rightarrow>
        let u = uint a + 256 * uint b + 65536 * uint c
        in if u < 2 ^ 23 then u else u - 2 ^ 24)"

text \<open>The 32-bit value that \<open>leInt24\<close> computes for a group of three bytes.\<close>

definition int24_word :: "byte \<times> byte \<times> byte \<Rightarrow> 32 word" where
  "int24_word g =
     (case g of (a, b, c) \<Rightarrow> ucast a OR push_bit 8 (ucast b) OR push_bit 16 (scast c))"


section \<open>Ring buffer: the worked example of capacity 4\<close>

lemma NewBuffer_4: "NewBuffer 4 = Inr \<lparr>data = [0, 0, 0, 0 :: 16 word], head = 0, tail = 0\<rparr>"
  by (simp add: NewBuffer_def numeral_eq_Suc)

lemma Write_1_2:
  "Write \<lparr>data = [0, 0, 0, 0 :: 16 word], head = 0, tail = 0\<rparr> [1, 2]
     = Inr \<lparr>data = [1, 2, 0, 0], head = 0, tail = 2\<rparr>"
  by (simp add: Write_def slice_from_def go_copy_def)

lemma Write_3:
  "Write \<lparr>data = [1, 2, 0, 0 :: 16 word], head = 0, tail = 2\<rparr> [3]
     = Inr \<lparr>data = [1, 2, 3, 0], head = 0, tail = 3\<rparr>"
  by (simp add: Write_def slice_from_def go_copy_def numeral_eq_Suc)

text \<open>
  Claim C2, as the code has it: in a buffer of capacity 4 that holds 1, 2, 3 (after writing
  [1, 2] and then [3]: head 0, tail 3), writing [4, 5, 6] puts 4 in the last slot and wraps
  5 and 6 over the two oldest elements.  The backing array is then [5, 6, 3, 4] with head 2
  and tail 2, and \<open>CopyTo\<close> reads the contents 3, 4, 5, 6, oldest first.
\<close>

theorem C2_write_4_5_6:
  "Write \<lparr>data = [1, 2, 3, 0 :: 16 word], head = 0, tail = 3\<rparr> [4, 5, 6]
     = Inr \<lparr>data = [5, 6, 3, 4], head = 2, tail = 2\<rparr>
   \<and> CopyTo \<lparr>data = [5, 6, 3, 4 :: 16 word], head = 2, tail = 2\<rparr> [0, 0, 0, 0]
     = Inr (\<lparr>data = [5, 6, 3, 4], head = 2, tail = 2\<rparr>, [3, 4, 5, 6], 4)"
  by (simp add: Write_def CopyTo_def slice_from_def slice_to_def go_copy_def numeral_eq_Suc)

text \<open>
  Claim C2 as the specification words it fails: the write does not leave the array
  [5, 2, 3, 4] with head 1 and tail 1.
\<close>

theorem C2_spec_state_refuted:
  "Write \<lparr>data = [1, 2, 3, 0 :: 16 word], head = 0, tail = 3\<rparr> [4, 5, 6]
     \<noteq> Inr \<lparr>data = [5, 2, 3, 4], head = 1, tail = 1\<rparr>"
  by (simp add: Write_def slice_from_def go_copy_def numeral_eq_Suc)

section \<open>Ring buffer: the repository's tests\<close>

text \<open>
  The expected values of \<open>ring_test.go\<close>, evaluated on the model: writing [1, 2] and then
  [3, 4, 5]; writing five elements at once; and writing four, advancing by two, writing one
  and reading.
\<close>

lemma test_write_2_3:
  "Write \<lparr>data = [1, 2, 0, 0 :: 16 word], head = 0, tail = 2\<rparr> [3, 4, 5]
     = Inr \<lparr>data = [5, 2, 3, 4], head = 1, tail = 1\<rparr>"
  by (simp add: Write_def slice_from_def go_copy_def numeral_eq_Suc)

lemma test_write_5:
  "Write \<lparr>data = [0, 0, 0, 0 :: 16 word], head = 0, tail = 0\<rparr> [1, 2, 3, 4, 5]
     = Inr \<lparr>data = [2, 3, 4, 5], head = 0, tail = 4\<rparr>"
  by (simp add: Write_def go_copy_def)

lemma test_write_4_adv2_1:
  "Advance \<lparr>data = [1, 2, 3, 4 :: 16 word], head = 0, tail = 4\<rparr> 2
     = \<lparr>data = [1, 2, 3, 4], head = 2, tail = 4\<rparr>
   \<and> Write \<lparr>data = [1, 2, 3, 4 :: 16 word], head = 2, tail = 4\<rparr> [5]
     = Inr \<lparr>data = [5, 2, 3, 4], head = 2, tail = 1\<rparr>"
  by (simp add: Advance_def Write_def slice_from_def go_copy_def)

lemma test_write_4_adv2_1_read:
  "Read \<lparr>data = [5, 2, 3, 4 :: 16 word], head = 2, tail = 1\<rparr> [0, 0, 0, 0]
     = Inr (\<lparr>data = [5, 2, 3, 4], head = 1, tail = 1\<rparr>, [3, 4, 5, 0], 3)"
  by (simp add: Read_def CopyTo_def Advance_def slice_from_def slice_to_def go_copy_def
      numeral_eq_Suc)

lemma test_head_at_end:
  "CopyTo \<lparr>data = [1, 2, 3, 4, 5, 6, 7, 8 :: 16 word], head = 8, tail = 4\<rparr>
      [0, 0, 0, 0, 0, 0, 0, 0, 0, 0]
     = Inr (\<lparr>data = [1, 2, 3, 4, 5, 6, 7, 8], head = 8, tail = 4\<rparr>,
            [1, 2, 3, 4, 0, 0, 0, 0, 0, 0], 4)"
  by (simp add: CopyTo_def slice_from_def slice_to_def go_copy_def numeral_eq_Suc)

section \<open>Ring buffer: CopyTo and Len\<close>

lemma CopyTo_unwrapped:
  assumes wf: "wf_Buffer r" and lt: "head r < tail r"
  shows "CopyTo r dst =
           Inr (r, take (min (length dst) (nat (Len r))) (drop (nat (head r)) (data r))
                     @ drop (min (length dst) (nat (Len r))) dst,
                int (min (length dst) (nat (Len r))))"
proof -
  define k where "k = min (length dst) (nat (Len r))"
  define s where "s = take (nat (tail r) - nat (head r)) (drop (nat (head r)) (data r))"
  from wf lt have bounds: "0 \<le> head r" "head r \<le> tail r" "tail r \<le> int (length (data r))"
    by (simp_all add: wf_Buffer_def)
  then have sl: "slice_range (data r) (head r) (tail r) = Inr s"
    by (simp add: slice_range_def s_def)
  from bounds lt have len: "nat (tail r) - nat (head r) = nat (Len r)"
    by (simp add: Len_def nat_diff_distrib)
  from bounds lt have "nat (Len r) \<le> length (data r) - nat (head r)"
    by (simp add: Len_def)
  then have ls: "length s = nat (Len r)"
    by (simp add: len s_def)
  have tk: "take k s = take k (drop (nat (head r)) (data r))"
    by (simp add: len s_def k_def min_def)
  have "go_copy dst s = (take k s @ drop k dst, int k)"
    by (simp add: go_copy_def Let_def ls k_def)
  then have "CopyTo r dst = Inr (r, take k s @ drop k dst, int k)"
    using lt by (simp add: CopyTo_def sl)
  then have "CopyTo r dst =
      Inr (r, take k (drop (nat (head r)) (data r)) @ drop k dst, int k)"
    by (simp only: tk)
  then show ?thesis
    by (simp only: k_def)
qed

text \<open>
  With \<open>tail \<le> head\<close> the call copies the run from \<open>head\<close> to the end of the array and
  then the run before \<open>tail\<close>.  When \<open>tail < head\<close> that is
  \<open>min (length dst) (Len r)\<close> elements; when \<open>head = tail\<close> it is
  \<open>min (length dst) (Size r)\<close> elements although \<open>Len r\<close> is 0.
\<close>

lemma go_copy_eq:
  "go_copy dst src = (take (min (length dst) (length src)) src
                        @ drop (min (length dst) (length src)) dst,
                      int (min (length dst) (length src)))"
  by (simp add: go_copy_def Let_def)

lemma CopyTo_wrapped:
  assumes wf: "wf_Buffer r" and ge: "tail r \<le> head r"
  shows "CopyTo r dst =
           Inr (r,
                take (min (length dst) (length (data r) - nat (head r) + nat (tail r)))
                  (drop (nat (head r)) (data r) @ take (nat (tail r)) (data r))
                @ drop (min (length dst) (length (data r) - nat (head r) + nat (tail r))) dst,
                int (min (length dst) (length (data r) - nat (head r) + nat (tail r))))"
proof -
  define h where "h = nat (head r)"
  define t where "t = nat (tail r)"
  define xs where "xs = data r"
  from wf ge have b: "h \<le> length xs" "t \<le> length xs" "t \<le> h"
    by (auto simp add: wf_Buffer_def h_def t_def xs_def)
  from wf have s1: "slice_from (data r) (head r) = Inr (drop h xs)"
    by (simp add: wf_Buffer_def slice_from_def h_def xs_def)
  from wf have s2: "slice_to (data r) (tail r) = Inr (take t xs)"
    by (simp add: wf_Buffer_def slice_to_def t_def xs_def)
  define n1 where "n1 = min (length dst) (length xs - h)"
  define d1 where "d1 = take n1 (drop h xs) @ drop n1 dst"
  have c1: "go_copy dst (drop h xs) = (d1, int n1)"
    by (simp add: go_copy_eq n1_def d1_def)
  have l1: "length d1 = length dst"
    using b by (simp add: d1_def n1_def)
  define n2 where "n2 = min (length dst - n1) t"
  define rest where "rest = take n2 (take t xs) @ drop n2 (drop n1 d1)"
  have c2: "go_copy (drop n1 d1) (take t xs) = (rest, int n2)"
    using b by (simp add: go_copy_eq n2_def rest_def l1 min_absorb2)
  have cp: "CopyTo r dst = Inr (r, take n1 d1 @ rest, int n1 + int n2)"
    using ge by (simp add: CopyTo_def s1 s2 c1 c2)
  define k where "k = min (length dst) (length xs - h + t)"
  have k: "n1 + n2 = k"
    using b by (auto simp add: n1_def n2_def k_def min_def)
  have n1le: "n1 \<le> length dst" "n1 \<le> length xs - h"
    by (simp_all add: n1_def)
  have t1: "take n1 d1 = take n1 (drop h xs)"
    using n1le b by (simp add: d1_def)
  have dd: "drop n1 d1 = drop n1 dst"
    using n1le b by (simp add: d1_def)
  have lhs: "take n1 d1 @ rest
      = take n1 (drop h xs) @ take n2 (take t xs) @ drop n2 (drop n1 dst)"
    by (simp only: t1 rest_def dd)
  have rhs: "take n1 (drop h xs) @ take n2 (take t xs) @ drop n2 (drop n1 dst)
      = take k (drop h xs @ take t xs) @ drop k dst"
  proof (cases "length dst \<le> length xs - h")
    case True
    then have "n1 = length dst" "n2 = 0" "k = length dst"
      using b by (simp_all add: n1_def n2_def k_def)
    then show ?thesis
      using True b by simp
  next
    case False
    then have n: "n1 = length xs - h"
      by (simp add: n1_def)
    have "n2 \<le> t" by (simp add: n2_def)
    with n k b show ?thesis
      by (simp add: k [symmetric] min_absorb2 add.commute)
  qed
  from lhs rhs have eq: "take n1 d1 @ rest = take k (drop h xs @ take t xs) @ drop k dst"
    by (rule trans)
  from cp k eq have "CopyTo r dst
      = Inr (r, take k (drop h xs @ take t xs) @ drop k dst, int k)"
    by simp
  then show ?thesis
    by (simp only: k_def h_def t_def xs_def)
qed

lemma CopyTo_count_wrapped:
  assumes wf: "wf_Buffer r" and lt: "tail r < head r"
  shows "snd (snd (projr (CopyTo r dst))) = int (min (length dst) (nat (Len r)))"
proof -
  from lt have ge: "tail r \<le> head r"
    by simp
  from wf lt have len: "nat (Len r) = length (data r) - nat (head r) + nat (tail r)"
    by (auto simp add: wf_Buffer_def Len_def)
  show ?thesis
    by (simp only: CopyTo_wrapped [OF wf ge] len sum.sel snd_conv)
qed

lemma CopyTo_count_head_eq_tail:
  assumes wf: "wf_Buffer r" and eq: "head r = tail r"
  shows "snd (snd (projr (CopyTo r dst))) = int (min (length dst) (nat (Size r)))
         \<and> Len r = 0"
proof -
  from eq have ge: "tail r \<le> head r"
    by simp
  from wf eq have len: "length (data r) - nat (head r) + nat (tail r) = nat (Size r)"
    by (auto simp add: wf_Buffer_def Size_def)
  from eq have z: "Len r = 0"
    by (simp add: Len_def)
  have "snd (snd (projr (CopyTo r dst))) = int (min (length dst) (nat (Size r)))"
    by (simp only: CopyTo_wrapped [OF wf ge] len sum.sel snd_conv)
  with z show ?thesis
    by simp
qed


text \<open>
  Claim C3 at a freshly created buffer of capacity 4: \<open>Len\<close> is 0, and \<open>CopyTo\<close> into a
  destination of four elements copies the four zeros of the backing array, which were
  never written, and returns 4.  \<open>Len\<close> takes \<open>head = tail\<close> for the empty buffer
  (\<open>head \<le> tail\<close>), \<open>CopyTo\<close> for the full one (\<open>head < tail\<close> fails).
\<close>

theorem C3_copyto_fresh_buffer:
  "NewBuffer 4 = Inr \<lparr>data = [0, 0, 0, 0 :: 16 word], head = 0, tail = 0\<rparr>
   \<and> Len \<lparr>data = [0, 0, 0, 0 :: 16 word], head = 0, tail = 0\<rparr> = 0
   \<and> CopyTo \<lparr>data = [0, 0, 0, 0 :: 16 word], head = 0, tail = 0\<rparr> [9, 9, 9, 9]
     = Inr (\<lparr>data = [0, 0, 0, 0], head = 0, tail = 0\<rparr>, [0, 0, 0, 0], 4)"
  by (simp add: NewBuffer_def Len_def CopyTo_def slice_from_def slice_to_def go_copy_def
      numeral_eq_Suc)

section \<open>Ring buffer: Advance\<close>

lemma Advance_tail: "tail (Advance r n) = tail r"
  by (simp add: Advance_def Let_def)

lemma Advance_data: "data (Advance r n) = data r"
  by (simp add: Advance_def Let_def)

lemma Advance_unwrapped:
  assumes "head r < tail r" and "0 \<le> n"
  shows "Len (Advance r n) = max (Len r - n) 0"
  using assms by (simp add: Advance_def Len_def min_def max_def)

lemma Advance_wrapped_within:
  assumes "wf_Buffer r" and "tail r < head r" and "0 \<le> n" and "n \<le> Len r"
  shows "Len (Advance r n) = Len r - n"
  using assms by (simp add: Advance_def Len_def wf_Buffer_def Let_def)

text \<open>
  Claim C4 at a wrapped, partially filled buffer: capacity 4, head 2, tail 1, three valid
  elements (the state of the test that writes four, advances by two and writes one).
  \<open>Advance 4\<close> should empty it; the wrapped branch has no clamp, sets head to
  \<open>4 - 2 = 2\<close> and leaves three elements.  \<open>Advance 7\<close> sets head to 5, past the end
  of the backing array, and the next \<open>CopyTo\<close> panics.
\<close>

theorem C4_advance_wrapped_unclamped:
  "Len \<lparr>data = [5, 2, 3, 4 :: 16 word], head = 2, tail = 1\<rparr> = 3
   \<and> Advance \<lparr>data = [5, 2, 3, 4 :: 16 word], head = 2, tail = 1\<rparr> 4
     = \<lparr>data = [5, 2, 3, 4], head = 2, tail = 1\<rparr>
   \<and> Len (Advance \<lparr>data = [5, 2, 3, 4 :: 16 word], head = 2, tail = 1\<rparr> 4) = 3
   \<and> Advance \<lparr>data = [5, 2, 3, 4 :: 16 word], head = 2, tail = 1\<rparr> 7
     = \<lparr>data = [5, 2, 3, 4], head = 5, tail = 1\<rparr>
   \<and> CopyTo \<lparr>data = [5, 2, 3, 4 :: 16 word], head = 5, tail = 1\<rparr> [0, 0, 0, 0]
     = Inl SliceBoundsOutOfRange"
  by (simp add: Len_def Advance_def CopyTo_def slice_from_def)
section \<open>Session: the settings query under an expired deadline\<close>

text \<open>
  Claim C5 at a control point that never notifies: the \<open>select\<close> takes \<open>ctx.Done()\<close>
  and the response variable is still nil.  \<open>querySettings\<close> assigns \<open>ctx.Err()\<close> to
  \<open>err\<close>, disables the notifications, and then returns the short-response error for the
  empty response; the context's error is dropped.  \<open>sendCommand\<close>, next to it, returns
  \<open>err\<close>.
\<close>

theorem C5_expired_query_returns_short_response:
  "querySettings MeasureSettings Online m (Expired DeadlineExceeded [])
     = ([EnableNotifications_callback, WriteWithoutResponse [MeasureSettings, m],
         EnableNotifications_nil],
        [], Some (ShortResponse []))
   \<and> sendCommand MeasureStop Online m [] (Expired DeadlineExceeded [])
     = ([EnableNotifications_callback, WriteWithoutResponse [MeasureStop, m],
         EnableNotifications_nil],
        [], Some (ContextError DeadlineExceeded))"
  by (simp add: querySettings_def sendCommand_def setCommand_write_def setCommand_Size_def
      settingSize_def Online_def numeral_2_eq_2)

text \<open>The same at the ECG measurement type, as \<open>Listener.Settings\<close> calls it.\<close>

theorem C5_expired_query_ECG:
  "Listener_Settings (Listener_init [15, 1] :: unit Listener) ECGType
      (Expired DeadlineExceeded [])
     = ([EnableNotifications_callback, WriteWithoutResponse [1, 0],
         EnableNotifications_nil],
        [], Some (ShortResponse []))"
  using C5_expired_query_returns_short_response [of ECGType]
  by (simp add: Listener_Settings_def MeasureSettings_def ECGType_def)

section \<open>Session: dispatch of data notifications\<close>

lemma dispatch_empty: "dispatch l [] = Inr None"
  by (simp add: dispatch_def)

lemma dispatch_no_handler:
  assumes "unat b < measurementTypes" and "handlers l ! unat b = None"
  shows "dispatch l (b # rest) = Inr None"
  using assms by (simp add: dispatch_def sampleTypeOffset_def)

lemma dispatch_out_of_range:
  assumes "measurementTypes \<le> unat b"
  shows "dispatch l (b # rest) = Inl IndexOutOfRange"
  using assms by (simp add: dispatch_def sampleTypeOffset_def)

lemma ECG_UnmarshalBinary_short:
  assumes "dat \<noteq> []" and "dat ! 0 = ECGType" and "length dat < 10"
  shows "ECG_UnmarshalBinary dat = Inl IndexOutOfRange"
  using assms
  by (simp add: ECG_UnmarshalBinary_def sampleTypeOffset_def frameTypeOffset_def)

text \<open>
  Claim C1 at two payloads.  The one-byte payload 13 indexes the array of 13 handlers out
  of range: \<open>dispatch\<close> guards the empty payload only, where \<open>SetHandler\<close> checks the same
  index against the length of the array.  The one-byte payload 0, with the ECG decoder
  installed as the handler of type 0, passes the type check of \<open>ECG.UnmarshalBinary\<close>,
  which then indexes byte 9 of a payload of length 1.
\<close>

theorem C1_dispatch_panics:
  "dispatch (Listener_init feats :: (error + ECG) Listener) [13] = Inl IndexOutOfRange
   \<and> dispatch
        (fst (SetHandler (Listener_init feats) (ECGHandler_Handle (Some ECG_UnmarshalBinary))
               (Notified [0xf0, 2, 0, 0, 0])))
        [0]
      = Inl IndexOutOfRange
   \<and> ECG_UnmarshalBinary [0] = Inl IndexOutOfRange"
  by (simp add: dispatch_def SetHandler_def ECGHandler_Handle_def Listener_init_def
      ECG_UnmarshalBinary_def ECGType_def measurementTypes_def sampleTypeOffset_def
      frameTypeOffset_def)

section \<open>Session: SetHandler\<close>

text \<open>
  Claim C10: for a measurement type below \<open>measurementTypes\<close>, \<open>SetHandler\<close> stores the
  handler returned by \<open>Handle()\<close> in the slot of that type and then calls \<open>sendCommand\<close>;
  whatever the exchange does and whatever \<open>sendCommand\<close> returns, the listener it leaves
  has the new handler in that slot, every other slot as it was, and the features as they
  were.
\<close>

theorem C10_SetHandler_slot:
  assumes "unat (h_measureTyp h) < measurementTypes"
    and "length (handlers l) = measurementTypes"
  shows "SetHandler l h x =
           (l\<lparr>handlers := (handlers l)[unat (h_measureTyp h) := h_handle h]\<rparr>,
            sendCommand (h_com h) Online (h_measureTyp h) (h_settings h) x)
         \<and> handlers (fst (SetHandler l h x)) ! unat (h_measureTyp h) = h_handle h
         \<and> (\<forall>j. j \<noteq> unat (h_measureTyp h) \<longrightarrow>
               handlers (fst (SetHandler l h x)) ! j = handlers l ! j)
         \<and> length (handlers (fst (SetHandler l h x))) = measurementTypes
         \<and> features (fst (SetHandler l h x)) = features l"
  using assms by (simp add: SetHandler_def Let_def)

theorem C10_SetHandler_slot_witness:
  "handlers (fst (SetHandler (Listener_init [15, 1])
                    (ECGHandler_Handle (Some ECG_UnmarshalBinary))
                    (Expired DeadlineExceeded [])))
     ! 0 = Some ECG_UnmarshalBinary
   \<and> snd (snd (snd (SetHandler (Listener_init [15, 1])
                      (ECGHandler_Handle (Some ECG_UnmarshalBinary))
                      (Expired DeadlineExceeded []))))
     = Some (ContextError DeadlineExceeded)"
proof -
  let ?l = "Listener_init [15, 1] :: (error + ECG) Listener"
  let ?h = "ECGHandler_Handle (Some ECG_UnmarshalBinary)"
  have m: "unat (h_measureTyp ?h) < measurementTypes"
    by (simp add: ECGHandler_Handle_def ECGType_def measurementTypes_def)
  have n: "length (handlers ?l) = measurementTypes"
    by (simp add: Listener_init_def)
  have s: "snd (snd (sendCommand (h_com ?h) Online (h_measureTyp ?h) (h_settings ?h)
                  (Expired DeadlineExceeded [])))
             = Some (ContextError DeadlineExceeded)"
    by code_simp
  note T = C10_SetHandler_slot [OF m n, of "Expired DeadlineExceeded []"]
  from T have a: "handlers (fst (SetHandler ?l ?h (Expired DeadlineExceeded [])))
                    ! unat (h_measureTyp ?h) = h_handle ?h"
    by (rule conjunct1 [OF conjunct2])
  from T have "SetHandler ?l ?h (Expired DeadlineExceeded []) =
      (?l\<lparr>handlers := (handlers ?l)[unat (h_measureTyp ?h) := h_handle ?h]\<rparr>,
       sendCommand (h_com ?h) Online (h_measureTyp ?h) (h_settings ?h)
         (Expired DeadlineExceeded []))"
    by (rule conjunct1)
  then have b: "snd (SetHandler ?l ?h (Expired DeadlineExceeded [])) =
      sendCommand (h_com ?h) Online (h_measureTyp ?h) (h_settings ?h)
        (Expired DeadlineExceeded [])"
    by (simp only: snd_conv)
  have c: "unat (h_measureTyp ?h) = 0" "h_handle ?h = Some ECG_UnmarshalBinary"
    by (simp_all add: ECGHandler_Handle_def ECGType_def)
  from a c have "handlers (fst (SetHandler ?l ?h (Expired DeadlineExceeded []))) ! 0
                   = Some ECG_UnmarshalBinary"
    by (simp only:)
  moreover from b s have "snd (snd (snd (SetHandler ?l ?h (Expired DeadlineExceeded []))))
                   = Some (ContextError DeadlineExceeded)"
    by (simp only:)
  ultimately show ?thesis
    by (rule conjI)
qed

section \<open>Little-endian bytes of a word\<close>

lemma le16_bytes:
  "ucast (ucast v :: 8 word) OR push_bit 8 (ucast (ucast (drop_bit 8 v) :: 8 word))
     = (v :: 16 word)"
  by (rule bit_word_eqI) (auto simp add: bit_simps)

lemma le32_bytes:
  "ucast (ucast v :: 8 word) OR push_bit 8 (ucast (ucast (drop_bit 8 v) :: 8 word))
     OR push_bit 16 (ucast (ucast (drop_bit 16 v) :: 8 word))
     OR push_bit 24 (ucast (ucast (drop_bit 24 v) :: 8 word)) = (v :: 32 word)"
proof (rule bit_word_eqI)
  fix k :: nat
  assume "k < LENGTH(32)"
  then consider "k < 8" | "8 \<le> k" "k < 16" | "16 \<le> k" "k < 24" | "24 \<le> k" "k < 32"
    by fastforce
  then show "bit (ucast (ucast v :: 8 word) OR push_bit 8 (ucast (ucast (drop_bit 8 v) :: 8 word))
     OR push_bit 16 (ucast (ucast (drop_bit 16 v) :: 8 word))
     OR push_bit 24 (ucast (ucast (drop_bit 24 v) :: 8 word)) :: 32 word) k \<longleftrightarrow> bit v k"
    by cases (auto simp add: bit_simps)
qed

lemma int24_or_plus:
  "(ucast (b0 :: 8 word) OR push_bit 8 (ucast (b1 :: 8 word)) OR push_bit 16 (scast (b2 :: 8 word)) :: 32 word)
    = ucast b0 + push_bit 8 (ucast b1) + push_bit 16 (scast b2)"
proof -
  have a: "(ucast b0 :: 32 word) + push_bit 8 (ucast b1) = ucast b0 OR push_bit 8 (ucast b1)"
    by (rule disjunctive_add) (auto simp add: bit_simps dest: bit_imp_le_length)
  have b: "(ucast b0 OR push_bit 8 (ucast b1) :: 32 word) + push_bit 16 (scast b2)
           = (ucast b0 OR push_bit 8 (ucast b1)) OR push_bit 16 (scast b2)"
    by (rule disjunctive_add) (auto simp add: bit_simps dest: bit_imp_le_length)
  have "(ucast b0 OR push_bit 8 (ucast b1) OR push_bit 16 (scast b2) :: 32 word)
          = (ucast b0 OR push_bit 8 (ucast b1)) OR push_bit 16 (scast b2)"
    by (simp only: or.assoc)
  also have "\<dots> = (ucast b0 OR push_bit 8 (ucast b1)) + push_bit 16 (scast b2)"
    by (rule b [symmetric])
  also have "\<dots> = ucast b0 + push_bit 8 (ucast b1) + push_bit 16 (scast b2)"
    by (simp only: a)
  finally show ?thesis .
qed

lemma int24_value:
  "sint (ucast (b0 :: 8 word) OR push_bit 8 (ucast (b1 :: 8 word)) OR push_bit 16 (scast (b2 :: 8 word)) :: 32 word)
    = uint b0 + 256 * uint b1 + 65536 * sint b2"
proof -
  let ?k = "uint b0 + 256 * uint b1 + 65536 * sint b2"
  have "(ucast b0 + push_bit 8 (ucast b1) + push_bit 16 (scast b2) :: 32 word)
          = word_of_int (uint b0) + word_of_int (uint b1) * 256 + word_of_int (sint b2) * 65536"
    by (simp only: ucast_eq scast_eq push_bit_eq_mult) simp
  also have "\<dots> = word_of_int ?k"
    by (simp only: wi_hom_syms) (simp add: mult.commute)
  finally have w: "(ucast b0 + push_bit 8 (ucast b1) + push_bit 16 (scast b2) :: 32 word)
          = word_of_int ?k" .
  have u0: "0 \<le> uint b0" "uint b0 < 256" using uint_lt2p [of b0] by simp_all
  have u1: "0 \<le> uint b1" "uint b1 < 256" using uint_lt2p [of b1] by simp_all
  have s2: "- 128 \<le> sint b2" "sint b2 < 128"
    using sint_ge [of b2] sint_lt [of b2] by simp_all
  have r: "- 2147483648 \<le> ?k" "?k < 2147483648"
    using u0 u1 s2 by linarith+
  have "sint (word_of_int ?k :: 32 word) = ?k"
    using r by (simp only: sint_sbintrunc') (simp add: signed_take_bit_int_eq_self)
  then show ?thesis by (simp only: int24_or_plus w)
qed


section \<open>Settings: write and UnmarshalBinary\<close>

lemma table_entries:
  "length settingTypes = 6"
  "settingTypes ! 0 = \<lparr>st_typ = 2, st_n = 1, st_size = 2\<rparr>"
  "settingTypes ! 1 = \<lparr>st_typ = 2, st_n = 1, st_size = 2\<rparr>"
  "settingTypes ! Suc 0 = \<lparr>st_typ = 2, st_n = 1, st_size = 2\<rparr>"
  "settingTypes ! 2 = \<lparr>st_typ = 2, st_n = 1, st_size = 2\<rparr>"
  "settingTypes ! 3 = \<lparr>st_typ = 0, st_n = 0, st_size = 0\<rparr>"
  "settingTypes ! 4 = \<lparr>st_typ = 1, st_n = 1, st_size = 1\<rparr>"
  "settingTypes ! 5 = \<lparr>st_typ = 3, st_n = 1, st_size = 4\<rparr>"
  by (simp_all add: settingTypes_def uint8Kind_def uint16Kind_def float32Kind_def
      uint8Size_def uint16Size_def float32Size_def numeral_eq_Suc)

lemma Uint16_roundtrip:
  assumes t: "Type w = SampleRateSetting \<or> Type w = ResolutionSetting
                \<or> Type w = RangeUnitSetting"
    and n: "length (Val w) = unat (st_n (settingTypes ! unat (Type w)))"
    and d: "Uint16_Size w \<le> length dst"
  shows "\<exists>dst'. Uint16_write w dst = Inr (Uint16_Size w, dst')
               \<and> Uint16_UnmarshalBinary dst' = Inr w"
proof -
  from t have tab: "unat (Type w) < 6" "settingTypes ! unat (Type w)
                      = \<lparr>st_typ = 2, st_n = 1, st_size = 2\<rparr>"
    by (auto simp add: SampleRateSetting_def ResolutionSetting_def RangeUnitSetting_def
        table_entries)
  with n have "length (Val w) = 1" by simp
  then obtain v where v: "Val w = [v]"
    by (cases "Val w") simp_all
  from d v have len: "4 \<le> length dst"
    by (simp add: Uint16_Size_def Uint16_size_def headerSize_def uint16Size_def)
  let ?dst' = "dst[0 := Type w, 1 := 1, 2 := ucast v, 3 := ucast (drop_bit 8 v)]"
  have wr: "Uint16_write w dst = Inr (Uint16_Size w, ?dst')"
    using len v tab
    by (simp add: Uint16_write_def table_mismatch_def table_entries Uint16_Size_def
        Uint16_size_def headerSize_def uint16Size_def LE_PutUint16_def)
  from len have ne: "dst \<noteq> []" by auto
  have "Uint16_UnmarshalBinary ?dst' = Inr \<lparr>Type = Type w, Val = [v]\<rparr>"
    using len ne
    by (simp add: Uint16_UnmarshalBinary_def Uint16_size_def headerSize_def uint16Size_def
        LE_Uint16_def le16_bytes)
  also have "\<lparr>Type = Type w, Val = [v]\<rparr> = w"
    using v by (cases w) simp
  finally show ?thesis
    using wr by blast
qed

lemma Float32_roundtrip:
  assumes t: "Type w = ConversionFactorSetting"
    and n: "length (Val w) = unat (st_n (settingTypes ! unat (Type w)))"
    and d: "Float32_Size w \<le> length dst"
  shows "\<exists>dst'. Float32_write w dst = Inr (Float32_Size w, dst')
               \<and> Float32_UnmarshalBinary dst' = Inr w"
proof -
  from t have tab: "unat (Type w) = 5"
    by (simp add: ConversionFactorSetting_def)
  with n have "length (Val w) = 1" by (simp add: table_entries)
  then obtain v where v: "Val w = [v]"
    by (cases "Val w") simp_all
  from d v have len: "6 \<le> length dst"
    by (simp add: Float32_Size_def Float32_size_def headerSize_def float32Size_def)
  let ?dst' = "dst[0 := Type w, 1 := 1, 2 := ucast v, 3 := ucast (drop_bit 8 v),
                   4 := ucast (drop_bit 16 v), 5 := ucast (drop_bit 24 v)]"
  have wr: "Float32_write w dst = Inr (Float32_Size w, ?dst')"
    using len v tab
    by (simp add: Float32_write_def table_mismatch_def table_entries Float32_Size_def
        Float32_size_def headerSize_def float32Size_def LE_PutUint32_def)
  from len have ne: "dst \<noteq> []" by auto
  have "Float32_UnmarshalBinary ?dst' = Inr \<lparr>Type = Type w, Val = [v]\<rparr>"
    using len ne
    by (simp add: Float32_UnmarshalBinary_def Float32_size_def headerSize_def
        float32Size_def LE_Uint32_def le32_bytes)
  also have "\<lparr>Type = Type w, Val = [v]\<rparr> = w"
    using v by (cases w) simp
  finally show ?thesis
    using wr by blast
qed

lemma Uint8_roundtrip:
  assumes t: "Type w = ChannelsSetting"
    and n: "length (Val w) = unat (st_n (settingTypes ! unat (Type w)))"
    and d: "Uint8_Size w \<le> length dst"
  shows "\<exists>dst'. Uint8_write w dst = Inr (Uint8_Size w, dst')
               \<and> Uint8_UnmarshalBinary dst' = Inr w"
proof -
  from t have tab: "unat (Type w) = 4"
    by (simp add: ChannelsSetting_def)
  with n have "length (Val w) = 1" by (simp add: table_entries)
  then obtain v where v: "Val w = [v]"
    by (cases "Val w") simp_all
  from d v have len: "3 \<le> length dst"
    by (simp add: Uint8_Size_def Uint8_size_def headerSize_def uint8Size_def)
  define d' where "d' = take 2 (dst[0 := Type w, 1 := 1]) @ v # drop 3 (dst[0 := Type w, 1 := 1])"
  have wr: "Uint8_write w dst = Inr (Uint8_Size w, d')"
    using len v tab
    by (simp add: Uint8_write_def table_mismatch_def table_entries Uint8_Size_def
        Uint8_size_def headerSize_def uint8Size_def go_copy_def numeral_3_eq_3 d'_def)
  from len have ne: "dst \<noteq> []" by auto
  have n0: "d' ! 0 = Type w"
    using len ne by (simp add: nth_append d'_def)
  have n1: "d' ! Suc 0 = 1"
    using len ne by (simp add: nth_append d'_def)
  have dr: "drop 2 d' = v # drop 3 dst"
    using len by (simp add: d'_def)
  have ln: "length d' = length dst"
    using len by (simp add: d'_def)
  have "Uint8_UnmarshalBinary d' = Inr \<lparr>Type = Type w, Val = [v]\<rparr>"
    using len
    by (simp add: Uint8_UnmarshalBinary_def Uint8_size_def headerSize_def
        uint8Size_def go_copy_def Let_def n0 n1 dr ln)
  also have "\<lparr>Type = Type w, Val = [v]\<rparr> = w"
    using v by (cases w) simp
  finally show ?thesis
    using wr by blast
qed

text \<open>
  Claim C8: for each setting type of the table, with as many values as the table requires
  and in the struct whose element width is the table's, \<open>write\<close> into a buffer of at
  least \<open>Size\<close> bytes succeeds, returns \<open>Size\<close>, and \<open>UnmarshalBinary\<close> of the written
  buffer gives back the setting: the same type tag and the same values.  (A \<open>float32\<close>
  value is its bit pattern.)
\<close>

theorem C8_write_unmarshal_roundtrip:
  "((Type w16 = SampleRateSetting \<or> Type w16 = ResolutionSetting
       \<or> Type w16 = RangeUnitSetting)
      \<and> length (Val w16) = unat (st_n (settingTypes ! unat (Type w16)))
      \<and> Uint16_Size w16 \<le> length dst16
     \<longrightarrow> (\<exists>dst'. Uint16_write w16 dst16 = Inr (Uint16_Size w16, dst')
                 \<and> Uint16_UnmarshalBinary dst' = Inr w16))
   \<and> (Type w8 = ChannelsSetting
      \<and> length (Val w8) = unat (st_n (settingTypes ! unat (Type w8)))
      \<and> Uint8_Size w8 \<le> length dst8
     \<longrightarrow> (\<exists>dst'. Uint8_write w8 dst8 = Inr (Uint8_Size w8, dst')
                 \<and> Uint8_UnmarshalBinary dst' = Inr w8))
   \<and> (Type w32 = ConversionFactorSetting
      \<and> length (Val w32) = unat (st_n (settingTypes ! unat (Type w32)))
      \<and> Float32_Size w32 \<le> length dst32
     \<longrightarrow> (\<exists>dst'. Float32_write w32 dst32 = Inr (Float32_Size w32, dst')
                 \<and> Float32_UnmarshalBinary dst' = Inr w32))"
  using Uint16_roundtrip [of w16 dst16] Uint8_roundtrip [of w8 dst8]
    Float32_roundtrip [of w32 dst32]
  by blast

theorem C8_roundtrip_witness:
  "Uint16_UnmarshalBinary [0, 1, 130, 0, 9] = Inr \<lparr>Type = SampleRateSetting, Val = [130]\<rparr>
   \<and> Uint8_UnmarshalBinary [4, 1, 3, 9] = Inr \<lparr>Type = ChannelsSetting, Val = [3]\<rparr>
   \<and> Float32_UnmarshalBinary [5, 1, 0, 0, 128, 63, 9]
        = Inr \<lparr>Type = ConversionFactorSetting, Val = [0x3f800000]\<rparr>"
proof -
  let ?w16 = "\<lparr>Type = SampleRateSetting, Val = [130]\<rparr> :: Uint16"
  let ?w8 = "\<lparr>Type = ChannelsSetting, Val = [3]\<rparr> :: Uint8"
  let ?w32 = "\<lparr>Type = ConversionFactorSetting, Val = [0x3f800000]\<rparr> :: Float32"
  note T = C8_write_unmarshal_roundtrip
    [of ?w16 "[9, 9, 9, 9, 9]" ?w8 "[9, 9, 9, 9]" ?w32 "[9, 9, 9, 9, 9, 9, 9]"]
  have h16: "length (Val ?w16) = unat (st_n (settingTypes ! unat (Type ?w16)))"
    "Uint16_Size ?w16 \<le> length [9, 9, 9, 9, 9 :: byte]"
    by (simp_all add: SampleRateSetting_def table_entries Uint16_Size_def Uint16_size_def
        headerSize_def uint16Size_def)
  have h8: "length (Val ?w8) = unat (st_n (settingTypes ! unat (Type ?w8)))"
    "Uint8_Size ?w8 \<le> length [9, 9, 9, 9 :: byte]"
    by (simp_all add: ChannelsSetting_def table_entries Uint8_Size_def Uint8_size_def
        headerSize_def uint8Size_def)
  have h32: "length (Val ?w32) = unat (st_n (settingTypes ! unat (Type ?w32)))"
    "Float32_Size ?w32 \<le> length [9, 9, 9, 9, 9, 9, 9 :: byte]"
    by (simp_all add: ConversionFactorSetting_def table_entries Float32_Size_def
        Float32_size_def headerSize_def float32Size_def)
  have e16: "Uint16_write ?w16 [9, 9, 9, 9, 9] = Inr (4, [0, 1, 130, 0, 9])"
    by code_simp
  have e8: "Uint8_write ?w8 [9, 9, 9, 9] = Inr (3, [4, 1, 3, 9])"
    by code_simp
  have e32: "Float32_write ?w32 [9, 9, 9, 9, 9, 9, 9] = Inr (6, [5, 1, 0, 0, 128, 63, 9])"
    by code_simp
  from T h16 have "\<exists>dst'. Uint16_write ?w16 [9, 9, 9, 9, 9] = Inr (Uint16_Size ?w16, dst')
                     \<and> Uint16_UnmarshalBinary dst' = Inr ?w16"
    by simp
  with e16 have a: "Uint16_UnmarshalBinary [0, 1, 130, 0, 9] = Inr ?w16"
    by auto
  from T h8 have "\<exists>dst'. Uint8_write ?w8 [9, 9, 9, 9] = Inr (Uint8_Size ?w8, dst')
                     \<and> Uint8_UnmarshalBinary dst' = Inr ?w8"
    by simp
  with e8 have b: "Uint8_UnmarshalBinary [4, 1, 3, 9] = Inr ?w8"
    by auto
  from T h32 have "\<exists>dst'. Float32_write ?w32 [9, 9, 9, 9, 9, 9, 9]
                        = Inr (Float32_Size ?w32, dst')
                     \<and> Float32_UnmarshalBinary dst' = Inr ?w32"
    by simp
  with e32 have c: "Float32_UnmarshalBinary [5, 1, 0, 0, 128, 63, 9] = Inr ?w32"
    by auto
  from a b c show ?thesis
    by (intro conjI)
qed

lemma Uint16_read_loop_length: "length (Uint16_read_loop k dat) = k"
  by (induction k arbitrary: dat) simp_all

lemma Float32_read_loop_length: "length (Float32_read_loop k dat) = k"
  by (induction k arbitrary: dat) simp_all

lemma Uint8_write_mismatch:
  assumes "length (Val w) \<noteq> unat (st_n (settingTypes ! unat (Type w)))"
  shows "Uint8_write w dst = Inl (InvalidSettingType (Type w))"
  using assms by (simp add: Uint8_write_def table_mismatch_def)

lemma Uint16_write_mismatch:
  assumes "length (Val w) \<noteq> unat (st_n (settingTypes ! unat (Type w)))"
  shows "Uint16_write w dst = Inl (InvalidSettingType (Type w))"
  using assms by (simp add: Uint16_write_def table_mismatch_def)

lemma Float32_write_mismatch:
  assumes "length (Val w) \<noteq> unat (st_n (settingTypes ! unat (Type w)))"
  shows "Float32_write w dst = Inl (InvalidSettingType (Type w))"
  using assms by (simp add: Float32_write_def table_mismatch_def)

lemma Uint8_UnmarshalBinary_any_count:
  assumes "headerSize \<le> length dat" and "Uint8_size (unat (dat ! 1)) \<le> length dat"
  shows "\<exists>vals. Uint8_UnmarshalBinary dat = Inr \<lparr>Type = dat ! 0, Val = vals\<rparr>
               \<and> length vals = unat (dat ! 1)"
  using assms by (simp add: Uint8_UnmarshalBinary_def go_copy_def Let_def)

lemma Uint16_UnmarshalBinary_any_count:
  assumes "headerSize \<le> length dat" and "Uint16_size (unat (dat ! 1)) \<le> length dat"
  shows "\<exists>vals. Uint16_UnmarshalBinary dat = Inr \<lparr>Type = dat ! 0, Val = vals\<rparr>
               \<and> length vals = unat (dat ! 1)"
  using assms by (simp add: Uint16_UnmarshalBinary_def Uint16_read_loop_length Let_def)

lemma Float32_UnmarshalBinary_any_count:
  assumes "headerSize \<le> length dat" and "Float32_size (unat (dat ! 1)) \<le> length dat"
  shows "\<exists>vals. Float32_UnmarshalBinary dat = Inr \<lparr>Type = dat ! 0, Val = vals\<rparr>
               \<and> length vals = unat (dat ! 1)"
  using assms by (simp add: Float32_UnmarshalBinary_def Float32_read_loop_length Let_def)

text \<open>
  Claim C6 as stated fails on the decoding side: the table requires one value for the
  sample rate, and a record that declares two is decoded, by \<open>UnmarshalBinary\<close> and by
  \<open>parseSetting\<close>, into a setting with two values.  (The answer to a settings query lists
  every value the sensor offers for a setting.)
\<close>

theorem C6_decode_accepts_count_mismatch:
  "unat (st_n (settingTypes ! unat SampleRateSetting)) = 1
   \<and> Uint16_UnmarshalBinary [0, 2, 0x82, 0, 0x19, 0]
       = Inr \<lparr>Type = SampleRateSetting, Val = [130, 25]\<rparr>
   \<and> parseSetting [0, 2, 0x82, 0, 0x19, 0]
       = ([SetUint16 \<lparr>Type = SampleRateSetting, Val = [130, 25]\<rparr>], None)"
  by code_simp

text \<open>
  Claim C6 as amended: \<open>write\<close> of each of the three structs rejects, with the
  invalid-setting-type error, a setting whose number of values differs from the count the
  table requires for its type; \<open>UnmarshalBinary\<close> does not consult the table and decodes
  a record of any declared count for which the bytes are there.
\<close>

theorem C6_write_rejects_count_mismatch:
  "(length (Val w8) \<noteq> unat (st_n (settingTypes ! unat (Type w8)))
      \<longrightarrow> Uint8_write w8 dst = Inl (InvalidSettingType (Type w8)))
   \<and> (length (Val w16) \<noteq> unat (st_n (settingTypes ! unat (Type w16)))
      \<longrightarrow> Uint16_write w16 dst = Inl (InvalidSettingType (Type w16)))
   \<and> (length (Val w32) \<noteq> unat (st_n (settingTypes ! unat (Type w32)))
      \<longrightarrow> Float32_write w32 dst = Inl (InvalidSettingType (Type w32)))
   \<and> (headerSize \<le> length dat \<and> Uint8_size (unat (dat ! 1)) \<le> length dat
      \<longrightarrow> (\<exists>vals. Uint8_UnmarshalBinary dat = Inr \<lparr>Type = dat ! 0, Val = vals\<rparr>
                  \<and> length vals = unat (dat ! 1)))
   \<and> (headerSize \<le> length dat \<and> Uint16_size (unat (dat ! 1)) \<le> length dat
      \<longrightarrow> (\<exists>vals. Uint16_UnmarshalBinary dat = Inr \<lparr>Type = dat ! 0, Val = vals\<rparr>
                  \<and> length vals = unat (dat ! 1)))
   \<and> (headerSize \<le> length dat \<and> Float32_size (unat (dat ! 1)) \<le> length dat
      \<longrightarrow> (\<exists>vals. Float32_UnmarshalBinary dat = Inr \<lparr>Type = dat ! 0, Val = vals\<rparr>
                  \<and> length vals = unat (dat ! 1)))"
  using Uint8_write_mismatch [of w8 dst] Uint16_write_mismatch [of w16 dst]
    Float32_write_mismatch [of w32 dst] Uint8_UnmarshalBinary_any_count [of dat]
    Uint16_UnmarshalBinary_any_count [of dat] Float32_UnmarshalBinary_any_count [of dat]
  by blast

theorem C6_write_rejects_witness:
  "Uint16_write \<lparr>Type = SampleRateSetting, Val = [130, 25]\<rparr> [0, 0, 0, 0, 0, 0]
     = Inl (InvalidSettingType SampleRateSetting)
   \<and> (\<exists>vals. Uint16_UnmarshalBinary [0, 2, 0x82, 0, 0x19, 0]
                  = Inr \<lparr>Type = 0, Val = vals\<rparr>
               \<and> length vals = 2)"
proof -
  let ?w = "\<lparr>Type = SampleRateSetting, Val = [130, 25]\<rparr> :: Uint16"
  let ?dat = "[0, 2, 0x82, 0, 0x19, 0] :: byte list"
  note T = C6_write_rejects_count_mismatch [of _ "[0, 0, 0, 0, 0, 0]" ?w _ ?dat]
  have m: "length (Val ?w) \<noteq> unat (st_n (settingTypes ! unat (Type ?w)))"
    by (simp add: SampleRateSetting_def table_entries)
  have d: "headerSize \<le> length ?dat" "Uint16_size (unat (?dat ! 1)) \<le> length ?dat"
    by (simp_all add: headerSize_def Uint16_size_def uint16Size_def)
  from T m have a: "Uint16_write ?w [0, 0, 0, 0, 0, 0] = Inl (InvalidSettingType (Type ?w))"
    by blast
  from T d have "\<exists>vals. Uint16_UnmarshalBinary ?dat = Inr \<lparr>Type = ?dat ! 0, Val = vals\<rparr>
                   \<and> length vals = unat (?dat ! 1)"
    by blast
  then have b: "\<exists>vals. Uint16_UnmarshalBinary ?dat = Inr \<lparr>Type = 0, Val = vals\<rparr>
                   \<and> length vals = 2"
    by simp
  from a b show ?thesis
    by simp
qed

section \<open>ECG frames: samples\<close>

lemma sint_byte: "sint (c :: byte) = (if uint c < 128 then uint c else uint c - 256)"
proof -
  define k where "k = uint c"
  have k: "0 \<le> k" "k < 256"
    using uint_lt2p [of c] by (simp_all add: k_def)
  have s: "sint c = (k + 128) mod 256 - 128"
    by (simp add: sint_uint signed_take_bit_eq_take_bit_shift take_bit_eq_mod k_def)
  show ?thesis
  proof (cases "k < 128")
    case True
    with k have "(k + 128) mod 256 = k + 128"
      by (simp add: mod_pos_pos_trivial)
    with True show ?thesis
      by (simp add: s k_def [symmetric])
  next
    case False
    have "k + 128 = (k - 128) + 256"
      by linarith
    then have "(k + 128) mod 256 = ((k - 128) + 256) mod 256"
      by (rule arg_cong)
    also have "\<dots> = (k - 128) mod 256"
      by (simp only: mod_add_self2)
    also have "\<dots> = k - 128"
      using False k by (simp add: mod_pos_pos_trivial)
    finally show ?thesis
      using False by (simp add: s k_def [symmetric])
  qed
qed


lemma int24_twos_complement:
  fixes x y z :: int
  assumes "0 \<le> x" "x < 256" "0 \<le> y" "y < 256" "0 \<le> z" "z < 256"
  shows "(let u = x + 256 * y + 65536 * z in if u < 2 ^ 23 then u else u - 2 ^ 24)
           = x + 256 * y + 65536 * (if z < 128 then z else z - 256)"
proof (cases "z < 128")
  case True
  with assms have "x + 256 * y + 65536 * z < 8388608"
    by linarith
  with True show ?thesis
    by (simp add: Let_def)
next
  case False
  with assms have "\<not> x + 256 * y + 65536 * z < 8388608"
    by linarith
  with False show ?thesis
    by (simp add: Let_def)
qed

lemma spec_int24_sint:
  "spec_int24 (a, b, c) = uint a + 256 * uint b + 65536 * sint c"
proof -
  have "0 \<le> uint a" "uint a < 256" "0 \<le> uint b" "uint b < 256" "0 \<le> uint c" "uint c < 256"
    using uint_lt2p [of a] uint_lt2p [of b] uint_lt2p [of c] by simp_all
  then have "(let u = uint a + 256 * uint b + 65536 * uint c
              in if u < 2 ^ 23 then u else u - 2 ^ 24)
               = uint a + 256 * uint b + 65536 * (if uint c < 128 then uint c else uint c - 256)"
    by (rule int24_twos_complement)
  then show ?thesis
    by (simp only: spec_int24_def sint_byte prod.case)
qed

lemma leInt24_group:
  "leInt24 [a, b, c] = Inr v \<Longrightarrow> sint v = spec_int24 (a, b, c)"
  by (auto simp add: leInt24_def int24_value spec_int24_sint)

lemma sint_int24_word: "sint (int24_word g) = spec_int24 g"
  by (cases g) (simp add: int24_word_def int24_value spec_int24_sint)

lemma ECG_trace_loop_groups:
  "length xs mod 3 = 0 \<Longrightarrow>
     ECG_trace_loop (pre @ xs) (length pre) acc = Inr (acc @ map int24_word (spec_groups3 xs))"
proof (induction xs arbitrary: pre acc rule: spec_groups3.induct)
  case (1 a b c rest)
  let ?v = "int24_word (a, b, c)"
  from 1(2) have r: "length rest mod 3 = 0"
    by simp
  have n3: "nat (int (length pre) + 3) - length pre = 3"
    by simp
  have sl: "slice_range (pre @ a # b # c # rest) (int (length pre))
              (int (length pre + ECGSamplingStride)) = Inr [a, b, c]"
    by (simp add: slice_range_def ECGSamplingStride_def n3)
  have le: "leInt24 [a, b, c] = Inr ?v"
    by (simp add: leInt24_def int24_word_def)
  have step: "ECG_trace_loop (pre @ a # b # c # rest) (length pre) acc
                = ECG_trace_loop (pre @ a # b # c # rest) (length pre + ECGSamplingStride)
                    (acc @ [?v])"
    by (subst ECG_trace_loop.simps) (simp add: sl le del: of_nat_add)
  have eq1: "(pre @ [a, b, c]) @ rest = pre @ a # b # c # rest"
    by simp
  have eq2: "length (pre @ [a, b, c]) = length pre + ECGSamplingStride"
    by (simp add: ECGSamplingStride_def)
  have eq3: "(acc @ [?v]) @ map int24_word (spec_groups3 rest)
               = acc @ map int24_word (spec_groups3 (a # b # c # rest))"
    by simp
  have "ECG_trace_loop ((pre @ [a, b, c]) @ rest) (length (pre @ [a, b, c])) (acc @ [?v])
          = Inr ((acc @ [?v]) @ map int24_word (spec_groups3 rest))"
    using r by (rule "1.IH")
  then have "ECG_trace_loop (pre @ a # b # c # rest) (length pre + ECGSamplingStride)
               (acc @ [?v])
          = Inr (acc @ map int24_word (spec_groups3 (a # b # c # rest)))"
    by (simp only: eq1 eq2 eq3)
  then show ?case
    by (simp only: step)
next
  case "2_1"
  show ?case
    by (subst ECG_trace_loop.simps) simp
qed simp_all

lemma ECG_trace_loop_total:
  assumes "length trace mod 3 = 0"
  shows "ECG_trace_loop trace 0 [] = Inr (map int24_word (spec_groups3 trace))"
  using ECG_trace_loop_groups [OF assms, of "[]" "[]"] by simp

lemma ECG_UnmarshalBinary_ok:
  assumes "frameTypeOffset < length dat"
    and "dat ! sampleTypeOffset = ECGType" and "dat ! frameTypeOffset = ECGFrameType0"
    and "(length dat - dataOffset) mod 3 = 0"
  shows "ECG_UnmarshalBinary dat =
           Inr (Inr \<lparr>Timestamp =
                       time_Unix (sint (LE_Uint64 (drop timeStampOffset dat)) sdiv 1000000000
                                    + epoch)
                         (sint (LE_Uint64 (drop timeStampOffset dat)) smod 1000000000),
                     Trace = map int24_word (spec_groups3 (drop dataOffset dat))\<rparr>)"
proof -
  from assms(4) have "length (drop dataOffset dat) mod 3 = 0"
    by simp
  then have "ECG_trace_loop (drop dataOffset dat) 0 []
               = Inr (map int24_word (spec_groups3 (drop dataOffset dat)))"
    by (rule ECG_trace_loop_total)
  moreover from assms(1) have "dat \<noteq> []"
    by auto
  ultimately show ?thesis
    using assms
    by (simp add: ECG_UnmarshalBinary_def Let_def ECGSamplingStride_def frameTypeOffset_def
        sampleTypeOffset_def)
qed

lemma ECG_UnmarshalBinary_not_factor:
  assumes "frameTypeOffset < length dat"
    and "dat ! sampleTypeOffset = ECGType" and "dat ! frameTypeOffset = ECGFrameType0"
    and "(length dat - dataOffset) mod 3 \<noteq> 0"
  shows "ECG_UnmarshalBinary dat =
           Inr (Inl (SamplesNotFactorOf3 ((length dat - dataOffset) mod 3)))"
proof -
  from assms(1) have "dat \<noteq> []"
    by auto
  with assms show ?thesis
    by (simp add: ECG_UnmarshalBinary_def Let_def ECGSamplingStride_def frameTypeOffset_def
        sampleTypeOffset_def)
qed

lemma spec_groups3_length: "length (spec_groups3 xs) = length xs div 3"
  by (induction xs rule: spec_groups3.induct) simp_all

text \<open>
  Claim C7: on a payload whose byte 0 is 0 and whose byte 9 is 0 (so of at least 10
  bytes), \<open>ECG.UnmarshalBinary\<close> returns the not-a-factor-of-3 error when the number of
  bytes after the 10-byte header is not divisible by 3; otherwise it succeeds with one
  sample for each group of three bytes, in order, each the group's little-endian 24-bit
  two's-complement value.  The three groups named by the specification decode to 1, -1
  and -8388608.
\<close>

theorem C7_ECG_samples:
  "(frameTypeOffset < length dat \<and> dat ! sampleTypeOffset = 0 \<and> dat ! frameTypeOffset = 0
     \<longrightarrow>
       ((length dat - dataOffset) mod 3 \<noteq> 0 \<longrightarrow>
          ECG_UnmarshalBinary dat
            = Inr (Inl (SamplesNotFactorOf3 ((length dat - dataOffset) mod 3))))
       \<and> ((length dat - dataOffset) mod 3 = 0 \<longrightarrow>
            (\<exists>m. ECG_UnmarshalBinary dat = Inr (Inr m)
                 \<and> length (Trace m) = (length dat - dataOffset) div 3
                 \<and> map sint (Trace m) = map spec_int24 (spec_groups3 (drop dataOffset dat)))))
   \<and> map_sum id sint (leInt24 [0x01, 0x00, 0x00]) = Inr 1
   \<and> map_sum id sint (leInt24 [0xFF, 0xFF, 0xFF]) = Inr (- 1)
   \<and> map_sum id sint (leInt24 [0x00, 0x00, 0x80]) = Inr (- 8388608)"
proof -
  have ex1: "map_sum id sint (leInt24 [0x01, 0x00, 0x00]) = Inr 1"
    by code_simp
  have ex2: "map_sum id sint (leInt24 [0xFF, 0xFF, 0xFF]) = Inr (- 1)"
    by code_simp
  have ex3: "map_sum id sint (leInt24 [0x00, 0x00, 0x80]) = Inr (- 8388608)"
    by code_simp
  have dec: "\<exists>m. ECG_UnmarshalBinary dat = Inr (Inr m)
                 \<and> length (Trace m) = (length dat - dataOffset) div 3
                 \<and> map sint (Trace m) = map spec_int24 (spec_groups3 (drop dataOffset dat))"
    if "frameTypeOffset < length dat" "dat ! sampleTypeOffset = 0" "dat ! frameTypeOffset = 0"
      "(length dat - dataOffset) mod 3 = 0"
    using ECG_UnmarshalBinary_ok [of dat] that
    by (simp add: ECGType_def ECGFrameType0_def spec_groups3_length sint_int24_word
        comp_def)
  have err: "ECG_UnmarshalBinary dat
               = Inr (Inl (SamplesNotFactorOf3 ((length dat - dataOffset) mod 3)))"
    if "frameTypeOffset < length dat" "dat ! sampleTypeOffset = 0" "dat ! frameTypeOffset = 0"
      "(length dat - dataOffset) mod 3 \<noteq> 0"
    using ECG_UnmarshalBinary_not_factor [of dat] that
    by (simp add: ECGType_def ECGFrameType0_def)
  show ?thesis
    apply (intro conjI impI)
        apply (elim conjE, rule err, assumption+)
       apply (elim conjE, rule dec, assumption+)
      apply (rule ex1)
     apply (rule ex2)
    apply (rule ex3)
    done
qed

theorem C7_ECG_samples_witness:
  "(\<exists>m. ECG_UnmarshalBinary
            [0, 1, 0, 0, 0, 0, 0, 0, 0, 0, 0x01, 0x00, 0x00, 0xFF, 0xFF, 0xFF, 0x00, 0x00, 0x80]
          = Inr (Inr m)
        \<and> map sint (Trace m) = [1, - 1, - 8388608])
   \<and> ECG_UnmarshalBinary [0, 1, 0, 0, 0, 0, 0, 0, 0, 0, 0x01]
       = Inr (Inl (SamplesNotFactorOf3 1))"
proof -
  define p :: "byte list" where
    "p = [0, 1, 0, 0, 0, 0, 0, 0, 0, 0, 0x01, 0x00, 0x00, 0xFF, 0xFF, 0xFF, 0x00, 0x00, 0x80]"
  define q :: "byte list" where "q = [0, 1, 0, 0, 0, 0, 0, 0, 0, 0, 0x01]"
  have hp: "frameTypeOffset < length p \<and> p ! sampleTypeOffset = 0 \<and> p ! frameTypeOffset = 0"
    by (simp add: p_def frameTypeOffset_def sampleTypeOffset_def)
  have hp3: "(length p - dataOffset) mod 3 = 0"
    by (simp add: p_def dataOffset_def)
  have hq: "frameTypeOffset < length q \<and> q ! sampleTypeOffset = 0 \<and> q ! frameTypeOffset = 0"
    by (simp add: q_def frameTypeOffset_def sampleTypeOffset_def)
  have hq3: "(length q - dataOffset) mod 3 = 1"
    by (simp add: q_def dataOffset_def)
  have v: "map spec_int24 (spec_groups3 (drop dataOffset p)) = [1, - 1, - 8388608]"
    unfolding p_def by code_simp
  have "((length p - dataOffset) mod 3 \<noteq> 0 \<longrightarrow>
            ECG_UnmarshalBinary p
              = Inr (Inl (SamplesNotFactorOf3 ((length p - dataOffset) mod 3))))
          \<and> ((length p - dataOffset) mod 3 = 0 \<longrightarrow>
              (\<exists>m. ECG_UnmarshalBinary p = Inr (Inr m)
                   \<and> length (Trace m) = (length p - dataOffset) div 3
                   \<and> map sint (Trace m) = map spec_int24 (spec_groups3 (drop dataOffset p))))"
    using hp by (rule mp [OF conjunct1 [OF C7_ECG_samples [of p]]])
  then have "\<exists>m. ECG_UnmarshalBinary p = Inr (Inr m)
                   \<and> length (Trace m) = (length p - dataOffset) div 3
                   \<and> map sint (Trace m) = map spec_int24 (spec_groups3 (drop dataOffset p))"
    using hp3 by (rule mp [OF conjunct2])
  then obtain m where m: "ECG_UnmarshalBinary p = Inr (Inr m)"
      "map sint (Trace m) = map spec_int24 (spec_groups3 (drop dataOffset p))"
    by (elim exE conjE)
  from m(2) have "map sint (Trace m) = [1, - 1, - 8388608]"
    by (simp only: v)
  with m(1) have a: "\<exists>m. ECG_UnmarshalBinary p = Inr (Inr m)
                        \<and> map sint (Trace m) = [1, - 1, - 8388608]"
    by (intro exI conjI)
  have "((length q - dataOffset) mod 3 \<noteq> 0 \<longrightarrow>
            ECG_UnmarshalBinary q
              = Inr (Inl (SamplesNotFactorOf3 ((length q - dataOffset) mod 3))))
          \<and> ((length q - dataOffset) mod 3 = 0 \<longrightarrow>
              (\<exists>m. ECG_UnmarshalBinary q = Inr (Inr m)
                   \<and> length (Trace m) = (length q - dataOffset) div 3
                   \<and> map sint (Trace m) = map spec_int24 (spec_groups3 (drop dataOffset q))))"
    using hq by (rule mp [OF conjunct1 [OF C7_ECG_samples [of q]]])
  then have "(length q - dataOffset) mod 3 \<noteq> 0 \<longrightarrow>
            ECG_UnmarshalBinary q
              = Inr (Inl (SamplesNotFactorOf3 ((length q - dataOffset) mod 3)))"
    by (rule conjunct1)
  then have b: "ECG_UnmarshalBinary q = Inr (Inl (SamplesNotFactorOf3 1))"
    by (simp add: hq3)
  from a b show ?thesis
    unfolding p_def q_def by (rule conjI)
qed

section \<open>ECG frames: the timestamp\<close>

lemma unix_nanos_time_Unix: "unix_nanos (time_Unix s n) = s * 1000000000 + n"
  by (simp add: time_Unix_def unix_nanos_def Let_def algebra_simps)

lemma unix_nanos_of_timestamp:
  "unix_nanos (time_Unix (t sdiv 1000000000 + epoch) (t smod 1000000000))
     = epoch * 1000000000 + t"
proof -
  have "t sdiv 1000000000 * 1000000000 + t smod 1000000000 = t"
    by (rule sdiv_mult_smod_eq)
  then show ?thesis
    by (simp add: unix_nanos_time_Unix algebra_simps)
qed

lemma sint_eq_uint_64:
  assumes "uint (t :: 64 word) < 2 ^ 63"
  shows "sint t = uint t"
proof -
  have "- (2 ^ 63) \<le> uint t"
    by (rule order_trans [of _ 0]) simp_all
  with assms show ?thesis
    by (simp only: sint_uint) (simp add: signed_take_bit_int_eq_self)
qed

text \<open>
  Claim C9 as stated fails for a raw timestamp of \<open>2 ^ 63\<close> or more: the code converts
  the \<open>uint64\<close> to \<open>int64\<close> before dividing, so the payload with timestamp bytes
  00 00 00 00 00 00 00 80 (the value \<open>2 ^ 63\<close>) decodes to an instant \<open>2 ^ 63\<close>
  nanoseconds before the device epoch, not after it.
\<close>

theorem C9_timestamp_unsigned_refuted:
  "ECG_UnmarshalBinary [0, 0, 0, 0, 0, 0, 0, 0, 0x80, 0]
     = Inr (Inr \<lparr>Timestamp = \<lparr>unix_sec = - 8276687237, unix_nsec = 145224192\<rparr>,
                 Trace = []\<rparr>)
   \<and> uint (LE_Uint64 (drop timeStampOffset [0, 0, 0, 0, 0, 0, 0, 0, 0x80, 0]))
       = 9223372036854775808
   \<and> unix_nanos \<lparr>unix_sec = - 8276687237, unix_nsec = 145224192\<rparr>
       = 946684800 * 1000000000 - 9223372036854775808
   \<and> unix_nanos \<lparr>unix_sec = - 8276687237, unix_nsec = 145224192\<rparr>
       \<noteq> 946684800 * 1000000000 + 9223372036854775808"
  by code_simp

text \<open>
  Claim C9 as amended: the decoded \<open>Timestamp\<close> is the instant \<open>epoch\<close> seconds after
  the Unix epoch plus \<open>t\<close> nanoseconds, where the 64-bit little-endian value \<open>t\<close> at
  offset 1 is read as a signed (two's-complement) count; for every \<open>t\<close> below \<open>2 ^ 63\<close>
  that is the unsigned count of the claim.
\<close>

theorem C9_ECG_timestamp:
  "frameTypeOffset < length dat \<and> dat ! sampleTypeOffset = ECGType
     \<and> dat ! frameTypeOffset = ECGFrameType0 \<and> (length dat - dataOffset) mod 3 = 0
   \<longrightarrow>
     (\<exists>m. ECG_UnmarshalBinary dat = Inr (Inr m)
          \<and> unix_nanos (Timestamp m)
              = 946684800 * 1000000000 + sint (LE_Uint64 (drop timeStampOffset dat))
          \<and> (uint (LE_Uint64 (drop timeStampOffset dat)) < 2 ^ 63 \<longrightarrow>
                unix_nanos (Timestamp m)
                  = 946684800 * 1000000000 + uint (LE_Uint64 (drop timeStampOffset dat))))"
proof (intro impI, elim conjE)
  assume h: "frameTypeOffset < length dat" "dat ! sampleTypeOffset = ECGType"
    "dat ! frameTypeOffset = ECGFrameType0" "(length dat - dataOffset) mod 3 = 0"
  let ?t = "LE_Uint64 (drop timeStampOffset dat)"
  define m where
    "m = \<lparr>Timestamp = time_Unix (sint ?t sdiv 1000000000 + epoch) (sint ?t smod 1000000000),
           Trace = map int24_word (spec_groups3 (drop dataOffset dat))\<rparr>"
  from h have ok: "ECG_UnmarshalBinary dat = Inr (Inr m)"
    unfolding m_def by (rule ECG_UnmarshalBinary_ok)
  have "unix_nanos (Timestamp m) = epoch * 1000000000 + sint ?t"
    by (simp add: m_def unix_nanos_of_timestamp)
  then have n: "unix_nanos (Timestamp m) = 946684800 * 1000000000 + sint ?t"
    by (simp add: epoch_def)
  have u: "uint ?t < 2 ^ 63 \<longrightarrow> unix_nanos (Timestamp m) = 946684800 * 1000000000 + uint ?t"
  proof
    assume "uint ?t < 2 ^ 63"
    then have e: "sint ?t = uint ?t"
      by (rule sint_eq_uint_64)
    from n show "unix_nanos (Timestamp m) = 946684800 * 1000000000 + uint ?t"
      by (simp only: e)
  qed
  from ok n u show "\<exists>m. ECG_UnmarshalBinary dat = Inr (Inr m)
          \<and> unix_nanos (Timestamp m) = 946684800 * 1000000000 + sint ?t
          \<and> (uint ?t < 2 ^ 63 \<longrightarrow>
                unix_nanos (Timestamp m) = 946684800 * 1000000000 + uint ?t)"
    by (intro exI conjI)
qed

theorem C9_ECG_timestamp_witness:
  "\<exists>m. ECG_UnmarshalBinary
           [0, 1, 0, 0, 0, 0, 0, 0, 0, 0, 0x01, 0x00, 0x00, 0xFF, 0xFF, 0xFF, 0x00, 0x00, 0x80]
         = Inr (Inr m)
       \<and> unix_nanos (Timestamp m) = 946684800000000001"
proof -
  define p :: "byte list" where
    "p = [0, 1, 0, 0, 0, 0, 0, 0, 0, 0, 0x01, 0x00, 0x00, 0xFF, 0xFF, 0xFF, 0x00, 0x00, 0x80]"
  have hp: "frameTypeOffset < length p \<and> p ! sampleTypeOffset = ECGType
              \<and> p ! frameTypeOffset = ECGFrameType0 \<and> (length p - dataOffset) mod 3 = 0"
    by (simp add: p_def frameTypeOffset_def sampleTypeOffset_def dataOffset_def ECGType_def
        ECGFrameType0_def)
  have t: "uint (LE_Uint64 (drop timeStampOffset p)) = 1"
    unfolding p_def by code_simp
  have "\<exists>m. ECG_UnmarshalBinary p = Inr (Inr m)
          \<and> unix_nanos (Timestamp m)
              = 946684800 * 1000000000 + sint (LE_Uint64 (drop timeStampOffset p))
          \<and> (uint (LE_Uint64 (drop timeStampOffset p)) < 2 ^ 63 \<longrightarrow>
                unix_nanos (Timestamp m)
                  = 946684800 * 1000000000 + uint (LE_Uint64 (drop timeStampOffset p)))"
    using hp by (rule mp [OF C9_ECG_timestamp [of p]])
  then obtain m where m: "ECG_UnmarshalBinary p = Inr (Inr m)"
      "uint (LE_Uint64 (drop timeStampOffset p)) < 2 ^ 63 \<longrightarrow>
         unix_nanos (Timestamp m)
           = 946684800 * 1000000000 + uint (LE_Uint64 (drop timeStampOffset p))"
    by (elim exE conjE)
  from m(2) have "unix_nanos (Timestamp m) = 946684800000000001"
    by (simp add: t)
  with m(1) show ?thesis
    unfolding p_def by (intro exI conjI)
qed


end
